theory Spec2Isabelle
  imports Complex_Main
begin

section \<open>Values\<close>

text \<open>
  The validators of \<^verbatim>\<open>shared_schema.ts\<close> take an untyped JavaScript record and the
  store keeps SQL rows. Both are built from the values below: the JSON values, the value
  \<^verbatim>\<open>undefined\<close>, and \<^verbatim>\<open>Date\<close> objects (\<open>JDate None\<close> is the Invalid Date). A finite
  JavaScript number is a rational.
\<close>

datatype jsval =
    JUndefined
  | JNull
  | JBool bool
  | JNum rat
  | JStr string
  | JArr "jsval list"
  | JObj "(string \<times> jsval) list"
  | JDate "int option"

text \<open>An input record: a key that is absent reads as \<^verbatim>\<open>undefined\<close>.\<close>

type_synonym record_in = "string \<rightharpoonup> jsval"

definition get :: "record_in \<Rightarrow> string \<Rightarrow> jsval" where
  "get r k = (case r k of None \<Rightarrow> JUndefined | Some v \<Rightarrow> v)"

section \<open>Table declarations\<close>

text \<open>
  A column is what the column builders of the source configure: its SQL name and type,
  whether it is an array, and the constraints \<^verbatim>\<open>notNull\<close>, \<^verbatim>\<open>default\<close>, \<^verbatim>\<open>unique\<close>,
  \<^verbatim>\<open>primaryKey\<close> and \<^verbatim>\<open>references\<close>.
\<close>

datatype pgType = Serial | Text | Integer | Boolean | Timestamp

datatype pgDefault = NoDefault | DefaultValue jsval | DefaultNow | DefaultNextval

record column =
  c_name :: string
  c_type :: pgType
  c_array :: bool
  c_notNull :: bool
  c_default :: pgDefault
  c_unique :: bool
  c_primaryKey :: bool
  c_references :: "(string \<times> string) option"

definition plain :: "string \<Rightarrow> pgType \<Rightarrow> column" where
  "plain n t = \<lparr> c_name = n, c_type = t, c_array = False, c_notNull = False,
     c_default = NoDefault, c_unique = False, c_primaryKey = False, c_references = None \<rparr>"

text \<open>\<^verbatim>\<open>serial\<close> is an integer column that is not null and defaults to the next value of its sequence.\<close>

definition pgSerial :: "string \<Rightarrow> column" where
  "pgSerial n = (plain n Serial) \<lparr> c_notNull := True, c_default := DefaultNextval \<rparr>"

definition pgText :: "string \<Rightarrow> column" where
  "pgText n = plain n Text"

definition pgInteger :: "string \<Rightarrow> column" where
  "pgInteger n = plain n Integer"

definition pgBoolean :: "string \<Rightarrow> column" where
  "pgBoolean n = plain n Boolean"

definition pgTimestamp :: "string \<Rightarrow> column" where
  "pgTimestamp n = plain n Timestamp"

definition notNull :: "column \<Rightarrow> column" where
  "notNull c = c \<lparr> c_notNull := True \<rparr>"

definition unique :: "column \<Rightarrow> column" where
  "unique c = c \<lparr> c_unique := True \<rparr>"

definition primaryKey :: "column \<Rightarrow> column" where
  "primaryKey c = c \<lparr> c_primaryKey := True, c_notNull := True \<rparr>"

definition array :: "column \<Rightarrow> column" where
  "array c = c \<lparr> c_array := True \<rparr>"

definition default_to :: "jsval \<Rightarrow> column \<Rightarrow> column" where
  "default_to v c = c \<lparr> c_default := DefaultValue v \<rparr>"

definition defaultNow :: "column \<Rightarrow> column" where
  "defaultNow c = c \<lparr> c_default := DefaultNow \<rparr>"

definition references :: "string \<Rightarrow> string \<Rightarrow> column \<Rightarrow> column" where
  "references t k c = c \<lparr> c_references := Some (t, k) \<rparr>"

text \<open>A table: its SQL name and its columns under their property keys, in declaration order.\<close>

record table =
  t_name :: string
  t_columns :: "(string \<times> column) list"

definition pgTable :: "string \<Rightarrow> (string \<times> column) list \<Rightarrow> table" where
  "pgTable n cs = \<lparr> t_name = n, t_columns = cs \<rparr>"

definition users :: table where
  "users = pgTable ''users''
    [ (''id'', primaryKey (pgSerial ''id'')),
      (''username'', unique (notNull (pgText ''username''))),
      (''password'', notNull (pgText ''password'')),
      (''role'', notNull (pgText ''role'')),
      (''fullName'', notNull (pgText ''full_name'')),
      (''email'', notNull (pgText ''email'')),
      (''phone'', pgText ''phone''),
      (''companyName'', pgText ''company_name''),
      (''companyDescription'', pgText ''company_description''),
      (''companyLogo'', pgText ''company_logo''),
      (''bio'', pgText ''bio''),
      (''skills'', array (pgText ''skills'')),
      (''hourlyRate'', pgInteger ''hourly_rate''),
      (''yearsExperience'', pgInteger ''years_experience''),
      (''verified'', default_to (JBool False) (pgBoolean ''verified'')) ]"

definition jobs :: table where
  "jobs = pgTable ''jobs''
    [ (''id'', primaryKey (pgSerial ''id'')),
      (''title'', notNull (pgText ''title'')),
      (''description'', notNull (pgText ''description'')),
      (''location'', notNull (pgText ''location'')),
      (''requirements'', array (pgText ''requirements'')),
      (''startDate'', notNull (pgTimestamp ''start_date'')),
      (''endDate'', notNull (pgTimestamp ''end_date'')),
      (''shiftStartTime'', notNull (pgText ''shift_start_time'')),
      (''shiftEndTime'', notNull (pgText ''shift_end_time'')),
      (''shiftHours'', notNull (pgInteger ''shift_hours'')),
      (''rate'', notNull (pgInteger ''rate'')),
      (''employerId'', references ''users'' ''id'' (notNull (pgInteger ''employer_id''))),
      (''status'', default_to (JStr ''open'') (notNull (pgText ''status''))) ]"

definition applications :: table where
  "applications = pgTable ''applications''
    [ (''id'', primaryKey (pgSerial ''id'')),
      (''jobId'', references ''jobs'' ''id'' (notNull (pgInteger ''job_id''))),
      (''workerId'', references ''users'' ''id'' (notNull (pgInteger ''worker_id''))),
      (''status'', default_to (JStr ''pending'') (notNull (pgText ''status''))),
      (''note'', pgText ''note''),
      (''createdAt'', defaultNow (notNull (pgTimestamp ''created_at''))) ]"

section \<open>Validation schemas\<close>

text \<open>
  The schema combinators the source uses: strings, numbers of an integer column, booleans,
  dates, coerced dates, arrays, and the wrappers \<^verbatim>\<open>optional\<close>, \<^verbatim>\<open>nullable\<close> and
  \<^verbatim>\<open>default\<close>.
\<close>

datatype ztype =
    ZString
  | ZInteger
  | ZBoolean
  | ZDate
  | ZCoerceDate
  | ZArray ztype
  | ZOptional ztype
  | ZNullable ztype
  | ZDefault ztype jsval

datatype ztag = TUndefined | TNull | TBoolean | TNumber | TString | TArray | TObject | TDate

datatype reason =
    InvalidType ztag ztag
  | NotInteger
  | InvalidDate

datatype pathElem = Key string | Index nat

record issue =
  path :: "pathElem list"
  code :: reason

definition mkIssue :: "pathElem list \<Rightarrow> reason \<Rightarrow> issue" where
  "mkIssue p c = \<lparr> path = p, code = c \<rparr>"

fun getParsedType :: "jsval \<Rightarrow> ztag" where
  "getParsedType JUndefined = TUndefined"
| "getParsedType JNull = TNull"
| "getParsedType (JBool b) = TBoolean"
| "getParsedType (JNum q) = TNumber"
| "getParsedType (JStr s) = TString"
| "getParsedType (JArr xs) = TArray"
| "getParsedType (JObj kvs) = TObject"
| "getParsedType (JDate t) = TDate"

text \<open>
  Two things are decided outside the repository and are parameters of the model:
  the check that the schema generator attaches to the number of an integer column
  (none in its early releases, an integer in the 32-bit range in the later ones), and the
  time value that the JavaScript engine gives \<^verbatim>\<open>new Date(v)\<close> for a string, an array or an
  object \<open>v\<close> (conversion to a string, then \<^verbatim>\<open>Date.parse\<close>, whose accepted formats depend
  on the engine).
\<close>

record runtime =
  integerColumn :: "rat \<Rightarrow> bool"
  dateParse :: "jsval \<Rightarrow> int option"

text \<open>
  \<^verbatim>\<open>new Date(v)\<close>: \<^verbatim>\<open>undefined\<close> gives the Invalid Date, \<^verbatim>\<open>null\<close> and booleans convert
  to the numbers 0 and 1, a number is a time value when it is at most 8.64e15 in absolute
  value and is truncated towards zero, a Date is copied.
\<close>

definition timeClip :: "rat \<Rightarrow> int option" where
  "timeClip q = (if \<bar>q\<bar> > 8640000000000000 then None
                 else Some (if q \<ge> 0 then \<lfloor>q\<rfloor> else \<lceil>q\<rceil>))"

fun newDate :: "runtime \<Rightarrow> jsval \<Rightarrow> int option" where
  "newDate rt JUndefined = None"
| "newDate rt JNull = Some 0"
| "newDate rt (JBool b) = Some (if b then 1 else 0)"
| "newDate rt (JNum q) = timeClip q"
| "newDate rt (JDate t) = t"
| "newDate rt v = dateParse rt v"

text \<open>
  Parsing the elements of an array: every element is parsed, the issues of all of them
  are kept, and the array is valid when no element has an issue.
\<close>

fun mergeArray :: "(issue list + jsval) list \<Rightarrow> issue list \<times> jsval list" where
  "mergeArray [] = ([], [])"
| "mergeArray (Inl es # rs) = (case mergeArray rs of (es', vs) \<Rightarrow> (es @ es', vs))"
| "mergeArray (Inr v # rs) = (case mergeArray rs of (es', vs) \<Rightarrow> (es', v # vs))"

fun parseZ :: "runtime \<Rightarrow> ztype \<Rightarrow> pathElem list \<Rightarrow> jsval \<Rightarrow> issue list + jsval" where
  "parseZ rt ZString p v =
     (case v of JStr s \<Rightarrow> Inr v
      | _ \<Rightarrow> Inl [mkIssue p (InvalidType TString (getParsedType v))])"
| "parseZ rt ZInteger p v =
     (case v of JNum q \<Rightarrow> if integerColumn rt q then Inr v else Inl [mkIssue p NotInteger]
      | _ \<Rightarrow> Inl [mkIssue p (InvalidType TNumber (getParsedType v))])"
| "parseZ rt ZBoolean p v =
     (case v of JBool b \<Rightarrow> Inr v
      | _ \<Rightarrow> Inl [mkIssue p (InvalidType TBoolean (getParsedType v))])"
| "parseZ rt ZDate p v =
     (case v of JDate (Some t) \<Rightarrow> Inr v
      | JDate None \<Rightarrow> Inl [mkIssue p InvalidDate]
      | _ \<Rightarrow> Inl [mkIssue p (InvalidType TDate (getParsedType v))])"
| "parseZ rt ZCoerceDate p v =
     (case newDate rt v of Some t \<Rightarrow> Inr (JDate (Some t))
      | None \<Rightarrow> Inl [mkIssue p InvalidDate])"
| "parseZ rt (ZArray z) p v =
     (case v of
        JArr xs \<Rightarrow>
          (case mergeArray (map (\<lambda>(i, x). parseZ rt z (p @ [Index i]) x)
                                (zip [0 ..< length xs] xs)) of
             ([], vs) \<Rightarrow> Inr (JArr vs)
           | (es, vs) \<Rightarrow> Inl es)
      | _ \<Rightarrow> Inl [mkIssue p (InvalidType TArray (getParsedType v))])"
| "parseZ rt (ZOptional z) p v = (if v = JUndefined then Inr JUndefined else parseZ rt z p v)"
| "parseZ rt (ZNullable z) p v = (if v = JNull then Inr JNull else parseZ rt z p v)"
| "parseZ rt (ZDefault z d) p v = (if v = JUndefined then parseZ rt z p d else parseZ rt z p v)"

text \<open>
  An object schema is a list of keys with their schemas. Parsing a record visits every key
  of the schema, keeps the issues of all of them, and drops the keys of the record that
  the schema does not list. A key whose parsed value is \<^verbatim>\<open>undefined\<close> is part of the
  result only when the record has the key.
\<close>

type_synonym shape = "(string \<times> ztype) list"

type_synonym record_out = "(string \<times> jsval) list"

fun parseShape :: "runtime \<Rightarrow> shape \<Rightarrow> record_in \<Rightarrow> issue list \<times> record_out" where
  "parseShape rt [] r = ([], [])"
| "parseShape rt ((k, z) # sh) r =
     (case parseShape rt sh r of (es, out) \<Rightarrow>
        (case parseZ rt z [Key k] (get r k) of
           Inl e \<Rightarrow> (e @ es, out)
         | Inr v \<Rightarrow> (es, if v \<noteq> JUndefined \<or> r k \<noteq> None then (k, v) # out else out)))"

definition safeParse :: "runtime \<Rightarrow> shape \<Rightarrow> record_in \<Rightarrow> issue list + record_out" where
  "safeParse rt sh r = (case parseShape rt sh r of ([], out) \<Rightarrow> Inr out | (es, out) \<Rightarrow> Inl es)"

text \<open>
  The schema generated for inserting into a table: a column that may be null is optional
  and nullable, a column with a default is optional, every other column is required.
\<close>

fun columnSchema :: "pgType \<Rightarrow> ztype" where
  "columnSchema Serial = ZInteger"
| "columnSchema Text = ZString"
| "columnSchema Integer = ZInteger"
| "columnSchema Boolean = ZBoolean"
| "columnSchema Timestamp = ZDate"

definition insertColumnSchema :: "column \<Rightarrow> ztype" where
  "insertColumnSchema c =
     (let base = (if c_array c then ZArray (columnSchema (c_type c)) else columnSchema (c_type c))
      in if \<not> c_notNull c then ZOptional (ZNullable base)
         else if c_default c \<noteq> NoDefault then ZOptional base
         else base)"

definition createInsertSchema :: "table \<Rightarrow> shape" where
  "createInsertSchema t = map (\<lambda>(k, c). (k, insertColumnSchema c)) (t_columns t)"

text \<open>\<^verbatim>\<open>pick\<close> keeps the listed keys that the schema has; \<^verbatim>\<open>extend\<close> replaces the schema of
  a key in place and appends a key that is new.\<close>

definition pick :: "string list \<Rightarrow> shape \<Rightarrow> shape" where
  "pick ks sh = concat (map (\<lambda>k. case map_of sh k of None \<Rightarrow> [] | Some z \<Rightarrow> [(k, z)]) ks)"

fun extend1 :: "shape \<Rightarrow> string \<times> ztype \<Rightarrow> shape" where
  "extend1 [] kz = [kz]"
| "extend1 ((k', z') # sh) kz = (if k' = fst kz then kz # sh else (k', z') # extend1 sh kz)"

definition extend :: "shape \<Rightarrow> shape \<Rightarrow> shape" where
  "extend sh aug = foldl extend1 sh aug"

definition insertUserSchema :: shape where
  "insertUserSchema =
     extend
       (pick [''username'', ''password'', ''role'', ''fullName'', ''email'', ''phone'',
              ''companyName'', ''companyDescription'', ''companyLogo'', ''bio'', ''skills'',
              ''hourlyRate'', ''yearsExperience'']
          (createInsertSchema users))
       [(''skills'', ZDefault (ZOptional (ZArray ZString)) (JArr []))]"

definition insertJobSchema :: shape where
  "insertJobSchema =
     extend
       (pick [''title'', ''description'', ''location'', ''requirements'', ''startDate'',
              ''endDate'', ''shiftStartTime'', ''shiftEndTime'', ''shiftHours'', ''rate'']
          (createInsertSchema jobs))
       [(''startDate'', ZCoerceDate), (''endDate'', ZCoerceDate),
        (''requirements'', ZDefault (ZArray ZString) (JArr []))]"

definition insertApplicationSchema :: shape where
  "insertApplicationSchema =
     extend
       (pick [''jobId'', ''workerId'', ''note''] (createInsertSchema applications))
       [(''note'', ZOptional ZString)]"

text \<open>The Creation Validator: the insert schema of the entity kind, run on the record.\<close>

datatype entity = User | Job | Application

fun insertSchema :: "entity \<Rightarrow> shape" where
  "insertSchema User = insertUserSchema"
| "insertSchema Job = insertJobSchema"
| "insertSchema Application = insertApplicationSchema"

definition validate :: "runtime \<Rightarrow> entity \<Rightarrow> record_in \<Rightarrow> issue list + record_out" where
  "validate rt e r = safeParse rt (insertSchema e) r"

section \<open>The store\<close>

text \<open>
  The storage engine is outside the repository: the source declares the tables and holds
  no code that writes to them. Section 6 of the spec says what the engine does (it
  receives records for insertion, enforces the uniqueness of \<^verbatim>\<open>username\<close> and of the
  primary keys and the three foreign keys, and supplies \<^verbatim>\<open>id\<close> and \<^verbatim>\<open>createdAt\<close>), and
  section 7 names its errors. The definitions of this section model that engine. They run
  on the table declarations above, so that what is enforced is what the source declares.
  Values are stored and compared as they are: the conversions that a database driver
  applies to a value of another type are not modelled, such a value is refused.
\<close>

type_synonym row = "(string \<times> jsval) list"

type_synonym store = "string \<Rightarrow> row list"

text \<open>Modelled from the spec: the store before any insertion, every table empty.\<close>

definition emptyStore :: store where
  "emptyStore = (\<lambda>t. [])"

text \<open>
  Modelled from the spec: the errors of the storage boundary. Section 7 names
  UniquenessError and ReferentialIntegrityError; the two others are the refusals of a
  value of the wrong type and of a NULL in a column that the source declares \<^verbatim>\<open>notNull\<close>.
  Each carries the table and the key of the column.
\<close>

datatype dbError =
    DataTypeError string string
  | NotNullViolation string string
  | UniquenessError string string
  | ReferentialIntegrityError string string

text \<open>Modelled from the spec: reading a column of a stored row.\<close>

definition field :: "row \<Rightarrow> string \<Rightarrow> jsval" where
  "field rw k = (case map_of rw k of None \<Rightarrow> JNull | Some v \<Rightarrow> v)"

text \<open>
  Modelled from the spec: the value stored in a column (sections 3 and 4.1, the defaults;
  section 6, the engine supplies \<^verbatim>\<open>id\<close> and \<^verbatim>\<open>createdAt\<close>). A column that the record
  leaves out takes the default that the source declares, or NULL when it declares none.
  The current time and the next value of the sequence come from the engine and are
  arguments.
\<close>

definition columnValue :: "int \<Rightarrow> int \<Rightarrow> record_in \<Rightarrow> string \<Rightarrow> column \<Rightarrow> jsval" where
  "columnValue now nextval r k c =
     (if get r k = JUndefined then
        (case c_default c of
           NoDefault \<Rightarrow> JNull
         | DefaultValue v \<Rightarrow> v
         | DefaultNow \<Rightarrow> JDate (Some now)
         | DefaultNextval \<Rightarrow> JNum (of_int nextval))
      else get r k)"

text \<open>Modelled from the spec: the row of a record, one value for every column of the table.\<close>

definition buildRow :: "table \<Rightarrow> int \<Rightarrow> int \<Rightarrow> record_in \<Rightarrow> row" where
  "buildRow t now nextval r = map (\<lambda>(k, c). (k, columnValue now nextval r k c)) (t_columns t)"

text \<open>
  Modelled from the spec: the values of the column types of section 3 (integer, string,
  boolean, date-time, sequence of strings). An integer column holds a 32-bit integer.
\<close>

definition isInt32 :: "rat \<Rightarrow> bool" where
  "isInt32 q \<longleftrightarrow> q = of_int \<lfloor>q\<rfloor> \<and> - 2147483648 \<le> q \<and> q \<le> 2147483647"

fun fitsType :: "pgType \<Rightarrow> jsval \<Rightarrow> bool" where
  "fitsType Serial v = (case v of JNum q \<Rightarrow> isInt32 q | _ \<Rightarrow> False)"
| "fitsType Integer v = (case v of JNum q \<Rightarrow> isInt32 q | _ \<Rightarrow> False)"
| "fitsType Text v = (case v of JStr s \<Rightarrow> True | _ \<Rightarrow> False)"
| "fitsType Boolean v = (case v of JBool b \<Rightarrow> True | _ \<Rightarrow> False)"
| "fitsType Timestamp v = (case v of JDate (Some t) \<Rightarrow> True | _ \<Rightarrow> False)"

definition fits :: "column \<Rightarrow> jsval \<Rightarrow> bool" where
  "fits c v =
     (v = JNull \<or>
      (if c_array c
       then (case v of JArr xs \<Rightarrow> list_all (\<lambda>x. x = JNull \<or> fitsType (c_type c) x) xs
             | _ \<Rightarrow> False)
       else fitsType (c_type c) v))"

text \<open>
  Modelled from the spec: the four checks of a row, each over every column of the table
  in declaration order. Uniqueness and the foreign keys are those of section 6, read off
  the \<^verbatim>\<open>unique\<close>, \<^verbatim>\<open>primaryKey\<close> and \<^verbatim>\<open>references\<close> declarations of the source; NULL
  neither repeats a value nor needs a referenced row.
\<close>

definition typeErrors :: "table \<Rightarrow> row \<Rightarrow> dbError list" where
  "typeErrors t rw =
     concat (map (\<lambda>(k, c). if fits c (field rw k) then [] else [DataTypeError (t_name t) k])
               (t_columns t))"

definition nullErrors :: "table \<Rightarrow> row \<Rightarrow> dbError list" where
  "nullErrors t rw =
     concat (map (\<lambda>(k, c). if c_notNull c \<and> field rw k = JNull
                            then [NotNullViolation (t_name t) k] else [])
               (t_columns t))"

definition uniqueErrors :: "table \<Rightarrow> store \<Rightarrow> row \<Rightarrow> dbError list" where
  "uniqueErrors t st rw =
     concat (map (\<lambda>(k, c). if (c_unique c \<or> c_primaryKey c) \<and> field rw k \<noteq> JNull
                               \<and> field rw k \<in> set (map (\<lambda>old. field old k) (st (t_name t)))
                            then [UniquenessError (t_name t) k] else [])
               (t_columns t))"

definition referenceErrors :: "table \<Rightarrow> store \<Rightarrow> row \<Rightarrow> dbError list" where
  "referenceErrors t st rw =
     concat (map (\<lambda>(k, c). case c_references c of
                              None \<Rightarrow> []
                            | Some (t', k') \<Rightarrow>
                                if field rw k \<noteq> JNull
                                   \<and> field rw k \<notin> set (map (\<lambda>old. field old k') (st t'))
                                then [ReferentialIntegrityError (t_name t) k] else [])
               (t_columns t))"

text \<open>
  Modelled from the spec: the insertion of a record into a table (section 6). The row is
  appended when no check fails; otherwise the insertion raises the first error, the
  checks taken in the order types, NULLs, uniqueness, references.
\<close>

definition insert_row :: "table \<Rightarrow> store \<Rightarrow> int \<Rightarrow> int \<Rightarrow> record_in \<Rightarrow> dbError + store" where
  "insert_row t st now nextval r =
     (let rw = buildRow t now nextval r in
      case typeErrors t rw @ nullErrors t rw @ uniqueErrors t st rw @ referenceErrors t st rw of
        [] \<Rightarrow> Inr (st (t_name t := st (t_name t) @ [rw]))
      | e # es \<Rightarrow> Inl e)"

text \<open>Modelled from the spec: the table of each entity kind (section 3).\<close>

fun tableOf :: "entity \<Rightarrow> table" where
  "tableOf User = users"
| "tableOf Job = jobs"
| "tableOf Application = applications"

text \<open>
  Modelled from the spec: creating an entity is inserting its record into its table; an
  insertion that is refused raises its error and leaves the store as it was (section 7:
  the errors propagate, nothing is retried or corrected).
\<close>

definition create :: "store \<Rightarrow> entity \<Rightarrow> int \<Rightarrow> int \<Rightarrow> record_in \<Rightarrow> dbError option \<times> store" where
  "create st e now nextval r =
     (case insert_row (tableOf e) st now nextval r of
        Inl err \<Rightarrow> (Some err, st)
      | Inr st' \<Rightarrow> (None, st'))"

text \<open>
  Modelled from the spec: the reachable stores are those that creations, accepted or
  refused, lead to from the empty store. Insertion is the one store operation that the
  spec defines.
\<close>

inductive reachable :: "store \<Rightarrow> bool" where
  initial: "reachable emptyStore"
| created: "reachable st \<Longrightarrow> create st e now nextval r = (res, st') \<Longrightarrow> reachable st'"

text \<open>Modelled from the spec: the usernames of the stored users, one per row.\<close>

definition usernames :: "store \<Rightarrow> jsval list" where
  "usernames st = map (\<lambda>rw. field rw ''username'') (st ''users'')"

section \<open>Example inputs\<close>

text \<open>
  A runtime for the examples: the integer check of the later releases of the schema
  generator, and a \<^verbatim>\<open>Date.parse\<close> that knows the two dates of the Job scenario
  (midnight UTC, in milliseconds since 1970).
\<close>

definition exampleRuntime :: runtime where
  "exampleRuntime =
     \<lparr> integerColumn = isInt32,
       dateParse = (\<lambda>v. if v = JStr ''2024-01-01'' then Some 1704067200000
                         else if v = JStr ''2024-01-02'' then Some 1704153600000
                         else None) \<rparr>"

definition aliceInput :: record_in where
  "aliceInput =
     [''username'' \<mapsto> JStr ''alice'', ''password'' \<mapsto> JStr ''x'', ''role'' \<mapsto> JStr ''worker'',
      ''fullName'' \<mapsto> JStr ''Alice A'', ''email'' \<mapsto> JStr ''a@x.com'']"

definition jobInput :: record_in where
  "jobInput =
     [''title'' \<mapsto> JStr ''Warehouse shift'', ''description'' \<mapsto> JStr ''...'',
      ''location'' \<mapsto> JStr ''Austin'', ''startDate'' \<mapsto> JStr ''2024-01-01'',
      ''endDate'' \<mapsto> JStr ''2024-01-02'', ''shiftStartTime'' \<mapsto> JStr ''08:00'',
      ''shiftEndTime'' \<mapsto> JStr ''16:00'', ''shiftHours'' \<mapsto> JNum 8, ''rate'' \<mapsto> JNum 20]"

definition applicationInput :: record_in where
  "applicationInput = [''jobId'' \<mapsto> JNum 1, ''workerId'' \<mapsto> JNum 1]"

text \<open>A store with one user and one job of that user, and the record of a second job.\<close>

definition aliceRow :: row where
  "aliceRow =
     [(''id'', JNum 1), (''username'', JStr ''alice''), (''password'', JStr ''x''),
      (''role'', JStr ''worker''), (''fullName'', JStr ''Alice A''), (''email'', JStr ''a@x.com''),
      (''phone'', JNull), (''companyName'', JNull), (''companyDescription'', JNull),
      (''companyLogo'', JNull), (''bio'', JNull), (''skills'', JNull), (''hourlyRate'', JNull),
      (''yearsExperience'', JNull), (''verified'', JBool False)]"

definition jobRecord :: record_in where
  "jobRecord =
     [''title'' \<mapsto> JStr ''Warehouse shift'', ''description'' \<mapsto> JStr ''...'',
      ''location'' \<mapsto> JStr ''Austin'', ''requirements'' \<mapsto> JArr [],
      ''startDate'' \<mapsto> JDate (Some 1704067200000),
      ''endDate'' \<mapsto> JDate (Some 1704153600000), ''shiftStartTime'' \<mapsto> JStr ''08:00'',
      ''shiftEndTime'' \<mapsto> JStr ''16:00'', ''shiftHours'' \<mapsto> JNum 8, ''rate'' \<mapsto> JNum 20,
      ''employerId'' \<mapsto> JNum 1]"

definition jobRow :: row where
  "jobRow =
     [(''id'', JNum 1), (''title'', JStr ''Warehouse shift''), (''description'', JStr ''...''),
      (''location'', JStr ''Austin''), (''requirements'', JArr []),
      (''startDate'', JDate (Some 1704067200000)), (''endDate'', JDate (Some 1704153600000)),
      (''shiftStartTime'', JStr ''08:00''), (''shiftEndTime'', JStr ''16:00''),
      (''shiftHours'', JNum 8), (''rate'', JNum 20), (''employerId'', JNum 1),
      (''status'', JStr ''open'')]"

definition exampleStore :: store where
  "exampleStore = emptyStore(''users'' := [aliceRow], ''jobs'' := [jobRow])"

section \<open>The derived schemas\<close>

lemmas decl_defs =
  users_def jobs_def applications_def pgTable_def pgSerial_def pgText_def pgInteger_def
  pgBoolean_def pgTimestamp_def plain_def notNull_def unique_def primaryKey_def array_def
  default_to_def defaultNow_def references_def

lemmas schema_defs = extend_def pick_def createInsertSchema_def insertColumnSchema_def

lemma insertUserSchema_eq:
  "insertUserSchema =
     [(''username'', ZString), (''password'', ZString), (''role'', ZString),
      (''fullName'', ZString), (''email'', ZString),
      (''phone'', ZOptional (ZNullable ZString)),
      (''companyName'', ZOptional (ZNullable ZString)),
      (''companyDescription'', ZOptional (ZNullable ZString)),
      (''companyLogo'', ZOptional (ZNullable ZString)),
      (''bio'', ZOptional (ZNullable ZString)),
      (''skills'', ZDefault (ZOptional (ZArray ZString)) (JArr [])),
      (''hourlyRate'', ZOptional (ZNullable ZInteger)),
      (''yearsExperience'', ZOptional (ZNullable ZInteger))]"
  by (simp add: insertUserSchema_def schema_defs decl_defs)

lemma insertJobSchema_eq:
  "insertJobSchema =
     [(''title'', ZString), (''description'', ZString), (''location'', ZString),
      (''requirements'', ZDefault (ZArray ZString) (JArr [])),
      (''startDate'', ZCoerceDate), (''endDate'', ZCoerceDate),
      (''shiftStartTime'', ZString), (''shiftEndTime'', ZString),
      (''shiftHours'', ZInteger), (''rate'', ZInteger)]"
  by (simp add: insertJobSchema_def schema_defs decl_defs)

lemma insertApplicationSchema_eq:
  "insertApplicationSchema =
     [(''jobId'', ZInteger), (''workerId'', ZInteger), (''note'', ZOptional ZString)]"
  by (simp add: insertApplicationSchema_def schema_defs decl_defs)

section \<open>Facts about the parser\<close>

lemma parseShape_cong:
  "(\<And>k. k \<in> fst ` set sh \<Longrightarrow> r1 k = r2 k) \<Longrightarrow> parseShape rt sh r1 = parseShape rt sh r2"
proof (induction sh)
  case Nil
  show ?case by simp
next
  case (Cons kz sh)
  obtain k z where kz: "kz = (k, z)" by (cases kz)
  have same: "r1 k = r2 k" using Cons.prems kz by simp
  have rest: "parseShape rt sh r1 = parseShape rt sh r2" using Cons by simp
  show ?case unfolding kz parseShape.simps get_def same rest by (rule refl)
qed

lemma parseShape_keys: "(k, v) \<in> set (snd (parseShape rt sh r)) \<Longrightarrow> k \<in> fst ` set sh"
proof (induction sh arbitrary: k v)
  case Nil
  then show ?case by simp
next
  case (Cons kz sh)
  then show ?case
    by (cases kz) (force split: prod.splits sum.splits if_splits)
qed

lemma parseZ_issue_nonempty: "parseZ rt z p v = Inl es \<Longrightarrow> es \<noteq> []"
proof (induction rt z p v arbitrary: es rule: parseZ.induct)
  case (6 rt z p v)
  then show ?case
    by (auto split: jsval.splits prod.splits list.splits)
qed (auto split: jsval.splits option.splits if_splits)



lemma parseShape_issues:
  "set (fst (parseShape rt sh r)) =
     (\<Union>(k, z) \<in> set sh. case parseZ rt z [Key k] (get r k) of Inl es \<Rightarrow> set es | Inr v \<Rightarrow> {})"
  by (induction sh) (auto split: prod.splits sum.splits)

lemma parseShape_value:
  "distinct (map fst sh) \<Longrightarrow> (k, z) \<in> set sh \<Longrightarrow> parseZ rt z [Key k] (get r k) = Inr v \<Longrightarrow>
   map_of (snd (parseShape rt sh r)) k = (if v \<noteq> JUndefined \<or> r k \<noteq> None then Some v else None)"
proof (induction sh)
  case Nil
  then show ?case by simp
next
  case (Cons kz sh)
  obtain k' z' where kz: "kz = (k', z')" by (cases kz)
  show ?case
  proof (cases "k' = k")
    case True
    with Cons.prems kz have "z' = z" by (auto simp: rev_image_eqI)
    moreover have "map_of (snd (parseShape rt sh r)) k = None"
      using Cons.prems(1) kz True parseShape_keys [of k _ rt sh r]
      by (auto simp: map_of_eq_None_iff)
    ultimately show ?thesis using Cons.prems(3) kz True
      by (auto split: prod.splits)
  next
    case False
    with Cons kz have "map_of (snd (parseShape rt sh r)) k =
        (if v \<noteq> JUndefined \<or> r k \<noteq> None then Some v else None)" by auto
    with False kz show ?thesis
      by (auto split: prod.splits sum.splits)
  qed
qed

lemma safeParse_Inr: "safeParse rt sh r = Inr out \<longleftrightarrow> parseShape rt sh r = ([], out)"
  by (auto simp: safeParse_def split: prod.splits list.splits)

lemma safeParse_Inl:
  "safeParse rt sh r = Inl es \<longleftrightarrow> fst (parseShape rt sh r) = es \<and> es \<noteq> []"
  by (auto simp: safeParse_def split: prod.splits list.splits)

section \<open>The Creation Validator\<close>

lemma insertSchema_keys:
  "map fst (insertSchema User) =
     [''username'', ''password'', ''role'', ''fullName'', ''email'', ''phone'', ''companyName'',
      ''companyDescription'', ''companyLogo'', ''bio'', ''skills'', ''hourlyRate'',
      ''yearsExperience'']"
  "map fst (insertSchema Job) =
     [''title'', ''description'', ''location'', ''requirements'', ''startDate'', ''endDate'',
      ''shiftStartTime'', ''shiftEndTime'', ''shiftHours'', ''rate'']"
  "map fst (insertSchema Application) = [''jobId'', ''workerId'', ''note'']"
  by (simp_all add: insertUserSchema_eq insertJobSchema_eq insertApplicationSchema_eq)

lemma insertSchema_distinct: "distinct (map fst (insertSchema e))"
  by (cases e) (simp_all only: insertSchema_keys, simp_all)

lemma insertSchema_no_server_field:
  "k \<in> {''id'', ''verified'', ''status'', ''createdAt''} \<Longrightarrow> k \<notin> set (map fst (insertSchema e))"
  by (cases e) (simp_all only: insertSchema_keys, auto)

lemmas eval_defs = validate_def safeParse_def get_def mkIssue_def

lemma validate_value:
  assumes "validate rt e r = Inr out" "(k, z) \<in> set (insertSchema e)"
  shows "\<exists>v. parseZ rt z [Key k] (get r k) = Inr v
           \<and> map_of out k = (if v \<noteq> JUndefined \<or> r k \<noteq> None then Some v else None)"
proof (cases "parseZ rt z [Key k] (get r k)")
  case (Inl es)
  from assms(1) have "fst (parseShape rt (insertSchema e) r) = []"
    by (simp add: validate_def safeParse_Inr)
  then have "set (fst (parseShape rt (insertSchema e) r)) = {}" by simp
  then have "set es = {}"
    unfolding parseShape_issues using assms(2) Inl by fastforce
  with parseZ_issue_nonempty [OF Inl] show ?thesis by simp
next
  case (Inr v)
  from assms(1) have "out = snd (parseShape rt (insertSchema e) r)"
    by (simp add: validate_def safeParse_Inr)
  with parseShape_value [OF insertSchema_distinct assms(2) Inr] Inr show ?thesis by simp
qed

lemma validate_issue:
  assumes "(k, z) \<in> set (insertSchema e)" "parseZ rt z [Key k] (get r k) = Inl es"
  shows "\<exists>errs. validate rt e r = Inl errs \<and> set es \<subseteq> set errs"
proof -
  have sub: "set es \<subseteq> set (fst (parseShape rt (insertSchema e) r))"
    unfolding parseShape_issues using assms by fastforce
  moreover have "es \<noteq> []" using assms(2) by (rule parseZ_issue_nonempty)
  ultimately have "fst (parseShape rt (insertSchema e) r) \<noteq> []" by auto
  then show ?thesis using sub by (simp add: validate_def safeParse_Inl)
qed

lemma jobInput_result:
  "validate exampleRuntime Job jobInput =
     Inr [(''title'', JStr ''Warehouse shift''), (''description'', JStr ''...''),
          (''location'', JStr ''Austin''), (''requirements'', JArr []),
          (''startDate'', JDate (Some 1704067200000)), (''endDate'', JDate (Some 1704153600000)),
          (''shiftStartTime'', JStr ''08:00''), (''shiftEndTime'', JStr ''16:00''),
          (''shiftHours'', JNum 8), (''rate'', JNum 20)]"
  by (simp add: eval_defs insertJobSchema_eq jobInput_def exampleRuntime_def isInt32_def)

lemma validate_accepts:
  assumes "\<And>k z. (k, z) \<in> set (insertSchema e) \<Longrightarrow> \<exists>v. parseZ rt z [Key k] (get r k) = Inr v"
  shows "\<exists>out. validate rt e r = Inr out"
proof -
  have "set (fst (parseShape rt (insertSchema e) r)) = {}"
    unfolding parseShape_issues using assms by fastforce
  then have "fst (parseShape rt (insertSchema e) r) = []" by simp
  then have "parseShape rt (insertSchema e) r = ([], snd (parseShape rt (insertSchema e) r))"
    by (metis prod.collapse)
  then show ?thesis by (auto simp: validate_def safeParse_Inr)
qed

lemma aliceInput_others_valid:
  "\<forall>(k, z) \<in> set (insertSchema User).
      k \<noteq> ''skills'' \<longrightarrow> (\<exists>v. parseZ exampleRuntime z [Key k] (get aliceInput k) = Inr v)"
  by (simp add: insertUserSchema_eq aliceInput_def get_def)

lemma jobInput_others_valid:
  "\<forall>(k, z) \<in> set (insertSchema Job).
      k \<noteq> ''requirements'' \<longrightarrow> (\<exists>v. parseZ exampleRuntime z [Key k] (get jobInput k) = Inr v)"
  by (simp add: insertJobSchema_eq jobInput_def get_def exampleRuntime_def isInt32_def)

subsection \<open>Properties of the Creation Validator\<close>

text \<open>
  C1 (as the claim states it, refuted). The claim: the Creation Validator of a Job requires
  \<^verbatim>\<open>employerId\<close> and returns it. The Job scenario of the spec has no \<^verbatim>\<open>employerId\<close> and
  is accepted, and when the record supplies \<^verbatim>\<open>employerId\<close> the normalized record is the
  same one, without it.
\<close>

theorem job_employerId_required_counterexample:
  "jobInput ''employerId'' = None
   \<and> validate exampleRuntime Job jobInput =
     Inr [(''title'', JStr ''Warehouse shift''), (''description'', JStr ''...''),
          (''location'', JStr ''Austin''), (''requirements'', JArr []),
          (''startDate'', JDate (Some 1704067200000)), (''endDate'', JDate (Some 1704153600000)),
          (''shiftStartTime'', JStr ''08:00''), (''shiftEndTime'', JStr ''16:00''),
          (''shiftHours'', JNum 8), (''rate'', JNum 20)]
   \<and> validate exampleRuntime Job (jobInput(''employerId'' \<mapsto> JNum 7)) =
     Inr [(''title'', JStr ''Warehouse shift''), (''description'', JStr ''...''),
          (''location'', JStr ''Austin''), (''requirements'', JArr []),
          (''startDate'', JDate (Some 1704067200000)), (''endDate'', JDate (Some 1704153600000)),
          (''shiftStartTime'', JStr ''08:00''), (''shiftEndTime'', JStr ''16:00''),
          (''shiftHours'', JNum 8), (''rate'', JNum 20)]"
  by (simp add: eval_defs insertJobSchema_eq jobInput_def exampleRuntime_def isInt32_def)

text \<open>
  C1 (amended). \<^verbatim>\<open>insertJobSchema\<close> picks ten keys and \<^verbatim>\<open>employerId\<close> is not one of
  them: the result of validating a Job record does not depend on what the record holds
  under \<^verbatim>\<open>employerId\<close>, present or absent, and the normalized record never has that key.
\<close>

theorem job_employerId_not_accepted:
  "validate rt Job (r(''employerId'' := v)) = validate rt Job r
   \<and> (validate rt Job r = Inr out \<longrightarrow> ''employerId'' \<notin> fst ` set out)"
proof (intro conjI impI)
  have "parseShape rt (insertSchema Job) (r(''employerId'' := v)) = parseShape rt (insertSchema Job) r"
    by (rule parseShape_cong) (auto simp: insertJobSchema_eq)
  then show "validate rt Job (r(''employerId'' := v)) = validate rt Job r"
    by (simp add: validate_def safeParse_def)
next
  assume "validate rt Job r = Inr out"
  then have out: "out = snd (parseShape rt (insertSchema Job) r)"
    by (simp add: validate_def safeParse_Inr)
  show "''employerId'' \<notin> fst ` set out"
  proof
    assume "''employerId'' \<in> fst ` set out"
    then obtain x where "(''employerId'', x) \<in> set out" by auto
    with out have "''employerId'' \<in> fst ` set (insertSchema Job)"
      using parseShape_keys by blast
    then have "''employerId'' \<in> set (map fst (insertSchema Job))" by simp
    then show False by (simp only: insertSchema_keys) simp
  qed
qed

theorem job_employerId_not_accepted_witness:
  "validate exampleRuntime Job (jobInput(''employerId'' := Some (JNum 7))) = validate exampleRuntime Job jobInput
   \<and> ''employerId'' \<notin> fst ` set [(''title'', JStr ''Warehouse shift''), (''description'', JStr ''...''),
          (''location'', JStr ''Austin''), (''requirements'', JArr []),
          (''startDate'', JDate (Some 1704067200000)), (''endDate'', JDate (Some 1704153600000)),
          (''shiftStartTime'', JStr ''08:00''), (''shiftEndTime'', JStr ''16:00''),
          (''shiftHours'', JNum 8), (''rate'', JNum 20)]"
  using job_employerId_not_accepted [of exampleRuntime jobInput "Some (JNum 7)"] jobInput_result
  by blast

text \<open>
  C2. For each entity kind, two inputs that differ only in \<^verbatim>\<open>id\<close>, \<^verbatim>\<open>verified\<close>,
  \<^verbatim>\<open>status\<close> and \<^verbatim>\<open>createdAt\<close> get the same result from the Creation Validator (the
  same issues, or the same normalized record), and none of these four keys is in a
  normalized record.
\<close>

theorem server_assigned_fields_ignored:
  "((\<forall>k. k \<notin> {''id'', ''verified'', ''status'', ''createdAt''} \<longrightarrow> r1 k = r2 k)
      \<longrightarrow> validate rt e r1 = validate rt e r2)
   \<and> (validate rt e r = Inr out
      \<longrightarrow> fst ` set out \<inter> {''id'', ''verified'', ''status'', ''createdAt''} = {})"
proof (intro conjI impI)
  assume same: "\<forall>k. k \<notin> {''id'', ''verified'', ''status'', ''createdAt''} \<longrightarrow> r1 k = r2 k"
  have "parseShape rt (insertSchema e) r1 = parseShape rt (insertSchema e) r2"
  proof (rule parseShape_cong)
    fix k assume "k \<in> fst ` set (insertSchema e)"
    then have "k \<notin> {''id'', ''verified'', ''status'', ''createdAt''}"
      using insertSchema_no_server_field [of k e] by auto
    with same show "r1 k = r2 k" by blast
  qed
  then show "validate rt e r1 = validate rt e r2"
    by (simp add: validate_def safeParse_def)
next
  assume ok: "validate rt e r = Inr out"
  then have out: "out = snd (parseShape rt (insertSchema e) r)"
    by (simp add: validate_def safeParse_Inr)
  show "fst ` set out \<inter> {''id'', ''verified'', ''status'', ''createdAt''} = {}"
  proof (rule ccontr)
    assume "fst ` set out \<inter> {''id'', ''verified'', ''status'', ''createdAt''} \<noteq> {}"
    then obtain k v where kv: "(k, v) \<in> set out"
        and k: "k \<in> {''id'', ''verified'', ''status'', ''createdAt''}"
      by fastforce
    from kv out have "k \<in> fst ` set (insertSchema e)"
      using parseShape_keys by blast
    with insertSchema_no_server_field [OF k, of e] show False by simp
  qed
qed

theorem server_assigned_fields_ignored_witness:
  "validate exampleRuntime Application applicationInput
     = validate exampleRuntime Application
         (applicationInput(''status'' \<mapsto> JStr ''accepted'', ''id'' \<mapsto> JNum 99))
   \<and> validate exampleRuntime Application
         (applicationInput(''status'' \<mapsto> JStr ''accepted'', ''id'' \<mapsto> JNum 99))
       = Inr [(''jobId'', JNum 1), (''workerId'', JNum 1)]
   \<and> fst ` set [(''jobId'', JNum 1), (''workerId'', JNum 1)]
       \<inter> {''id'', ''verified'', ''status'', ''createdAt''} = {}"
proof -
  let ?r2 = "applicationInput(''status'' \<mapsto> JStr ''accepted'', ''id'' \<mapsto> JNum 99)"
  have same: "\<forall>k. k \<notin> {''id'', ''verified'', ''status'', ''createdAt''} \<longrightarrow> applicationInput k = ?r2 k"
    by simp
  have ok: "validate exampleRuntime Application ?r2 = Inr [(''jobId'', JNum 1), (''workerId'', JNum 1)]"
    by (simp add: validate_def safeParse_def insertApplicationSchema_eq get_def
        applicationInput_def exampleRuntime_def isInt32_def)
  show ?thesis
    using server_assigned_fields_ignored
      [of applicationInput ?r2 exampleRuntime Application ?r2
          "[(''jobId'', JNum 1), (''workerId'', JNum 1)]"] same ok
    by blast
qed

text \<open>
  C3 (the code at the failing input). The claim: a User record whose \<^verbatim>\<open>role\<close> is a string
  other than \<^verbatim>\<open>worker\<close> and \<^verbatim>\<open>employer\<close> is rejected. The schema of \<^verbatim>\<open>role\<close> is the one
  generated for a text column, any string: the User scenario of the spec with the role
  \<^verbatim>\<open>admin\<close> is accepted, whatever the runtime.
\<close>

theorem user_role_admin_accepted:
  "validate rt User (aliceInput(''role'' \<mapsto> JStr ''admin'')) =
     Inr [(''username'', JStr ''alice''), (''password'', JStr ''x''), (''role'', JStr ''admin''),
          (''fullName'', JStr ''Alice A''), (''email'', JStr ''a@x.com''), (''skills'', JArr [])]"
  by (simp add: eval_defs insertUserSchema_eq aliceInput_def)





text \<open>
  C6. A User record without \<^verbatim>\<open>skills\<close> whose other keys are valid (the schema of every
  other key accepts the record's value) is accepted, and the normalized record has
  \<^verbatim>\<open>skills\<close> equal to the empty array; a Job record without \<^verbatim>\<open>requirements\<close> whose
  other keys are valid is accepted, and the normalized record has \<^verbatim>\<open>requirements\<close> equal
  to the empty array. The key is present in both cases, and every accepted record that
  leaves the key out has it so.
\<close>

theorem absent_sequences_default_to_empty:
  "(r1 ''skills'' = None
      \<and> (\<forall>(k, z) \<in> set (insertSchema User).
            k \<noteq> ''skills'' \<longrightarrow> (\<exists>v. parseZ rt z [Key k] (get r1 k) = Inr v))
     \<longrightarrow> (\<exists>out. validate rt User r1 = Inr out \<and> map_of out ''skills'' = Some (JArr [])))
   \<and> (r2 ''requirements'' = None
      \<and> (\<forall>(k, z) \<in> set (insertSchema Job).
            k \<noteq> ''requirements'' \<longrightarrow> (\<exists>v. parseZ rt z [Key k] (get r2 k) = Inr v))
     \<longrightarrow> (\<exists>out. validate rt Job r2 = Inr out \<and> map_of out ''requirements'' = Some (JArr [])))
   \<and> (r3 ''skills'' = None \<and> validate rt User r3 = Inr out3
      \<longrightarrow> map_of out3 ''skills'' = Some (JArr []))
   \<and> (r4 ''requirements'' = None \<and> validate rt Job r4 = Inr out4
      \<longrightarrow> map_of out4 ''requirements'' = Some (JArr []))"
proof -
  have user: "map_of out ''skills'' = Some (JArr [])"
    if "r ''skills'' = None" "validate rt User r = Inr out" for r out
  proof -
    have "(''skills'', ZDefault (ZOptional (ZArray ZString)) (JArr [])) \<in> set (insertSchema User)"
      by (simp add: insertUserSchema_eq)
    from validate_value [OF that(2) this] that(1) show ?thesis by (auto simp: get_def)
  qed
  have job: "map_of out ''requirements'' = Some (JArr [])"
    if "r ''requirements'' = None" "validate rt Job r = Inr out" for r out
  proof -
    have "(''requirements'', ZDefault (ZArray ZString) (JArr [])) \<in> set (insertSchema Job)"
      by (simp add: insertJobSchema_eq)
    from validate_value [OF that(2) this] that(1) show ?thesis by (auto simp: get_def)
  qed
  have c1: "\<exists>out. validate rt User r1 = Inr out \<and> map_of out ''skills'' = Some (JArr [])"
    if a: "r1 ''skills'' = None
      \<and> (\<forall>(k, z) \<in> set (insertSchema User).
            k \<noteq> ''skills'' \<longrightarrow> (\<exists>v. parseZ rt z [Key k] (get r1 k) = Inr v))"
  proof -
    have "\<exists>v. parseZ rt z [Key k] (get r1 k) = Inr v" if kz: "(k, z) \<in> set (insertSchema User)" for k z
    proof (cases "k = ''skills''")
      case True
      with kz have "z = ZDefault (ZOptional (ZArray ZString)) (JArr [])"
        by (auto simp: insertUserSchema_eq)
      with True a show ?thesis by (simp add: get_def)
    next
      case False
      with a kz show ?thesis by blast
    qed
    then obtain out where "validate rt User r1 = Inr out" using validate_accepts by blast
    with user a show ?thesis by blast
  qed
  have c2: "\<exists>out. validate rt Job r2 = Inr out \<and> map_of out ''requirements'' = Some (JArr [])"
    if a: "r2 ''requirements'' = None
      \<and> (\<forall>(k, z) \<in> set (insertSchema Job).
            k \<noteq> ''requirements'' \<longrightarrow> (\<exists>v. parseZ rt z [Key k] (get r2 k) = Inr v))"
  proof -
    have "\<exists>v. parseZ rt z [Key k] (get r2 k) = Inr v" if kz: "(k, z) \<in> set (insertSchema Job)" for k z
    proof (cases "k = ''requirements''")
      case True
      with kz have "z = ZDefault (ZArray ZString) (JArr [])"
        by (auto simp: insertJobSchema_eq)
      with True a show ?thesis by (simp add: get_def)
    next
      case False
      with a kz show ?thesis by blast
    qed
    then obtain out where "validate rt Job r2 = Inr out" using validate_accepts by blast
    with job a show ?thesis by blast
  qed
  show ?thesis using c1 c2 user job by blast
qed

theorem absent_sequences_default_to_empty_witness:
  "(\<exists>out. validate exampleRuntime User aliceInput = Inr out
       \<and> map_of out ''skills'' = Some (JArr []))
   \<and> (\<exists>out. validate exampleRuntime Job jobInput = Inr out
       \<and> map_of out ''requirements'' = Some (JArr []))"
proof -
  have s: "aliceInput ''skills'' = None" by (simp add: aliceInput_def)
  have q: "jobInput ''requirements'' = None" by (simp add: jobInput_def)
  show ?thesis
    using absent_sequences_default_to_empty [of aliceInput exampleRuntime jobInput]
      s q aliceInput_others_valid jobInput_others_valid
    by blast
qed

text \<open>
  C7. An Application record without \<^verbatim>\<open>jobId\<close>, whose \<^verbatim>\<open>workerId\<close> is a number of an
  integer column and whose \<^verbatim>\<open>note\<close> is absent or a string, is rejected with exactly one
  issue: \<^verbatim>\<open>jobId\<close> is required and undefined. A record with numbers of an integer column
  under \<^verbatim>\<open>jobId\<close> and \<^verbatim>\<open>workerId\<close> and no \<^verbatim>\<open>note\<close> is accepted as it is. Whatever else
  the record holds, a missing \<^verbatim>\<open>jobId\<close> and a missing \<^verbatim>\<open>workerId\<close> are each reported.
\<close>

theorem application_required_fields:
  "(r1 ''jobId'' = None \<and> r1 ''workerId'' = Some (JNum w1) \<and> integerColumn rt w1
      \<and> (r1 ''note'' = None \<or> r1 ''note'' = Some (JStr s))
     \<longrightarrow> validate rt Application r1
           = Inl [\<lparr> path = [Key ''jobId''], code = InvalidType TNumber TUndefined \<rparr>])
   \<and> (r2 ''jobId'' = Some (JNum j) \<and> integerColumn rt j
      \<and> r2 ''workerId'' = Some (JNum w2) \<and> integerColumn rt w2 \<and> r2 ''note'' = None
     \<longrightarrow> validate rt Application r2 = Inr [(''jobId'', JNum j), (''workerId'', JNum w2)])
   \<and> (r3 ''jobId'' = None
     \<longrightarrow> (\<exists>errs. validate rt Application r3 = Inl errs
            \<and> \<lparr> path = [Key ''jobId''], code = InvalidType TNumber TUndefined \<rparr> \<in> set errs))
   \<and> (r3 ''workerId'' = None
     \<longrightarrow> (\<exists>errs. validate rt Application r3 = Inl errs
            \<and> \<lparr> path = [Key ''workerId''], code = InvalidType TNumber TUndefined \<rparr> \<in> set errs))"
proof (intro conjI impI)
  assume "r1 ''jobId'' = None \<and> r1 ''workerId'' = Some (JNum w1) \<and> integerColumn rt w1
      \<and> (r1 ''note'' = None \<or> r1 ''note'' = Some (JStr s))"
  then show "validate rt Application r1
           = Inl [\<lparr> path = [Key ''jobId''], code = InvalidType TNumber TUndefined \<rparr>]"
    by (auto simp: eval_defs insertApplicationSchema_eq)
next
  assume "r2 ''jobId'' = Some (JNum j) \<and> integerColumn rt j
      \<and> r2 ''workerId'' = Some (JNum w2) \<and> integerColumn rt w2 \<and> r2 ''note'' = None"
  then show "validate rt Application r2 = Inr [(''jobId'', JNum j), (''workerId'', JNum w2)]"
    by (simp add: eval_defs insertApplicationSchema_eq)
next
  assume a: "r3 ''jobId'' = None"
  have s: "(''jobId'', ZInteger) \<in> set (insertSchema Application)"
    by (simp add: insertApplicationSchema_eq)
  have "parseZ rt ZInteger [Key ''jobId''] (get r3 ''jobId'')
          = Inl [\<lparr> path = [Key ''jobId''], code = InvalidType TNumber TUndefined \<rparr>]"
    using a by (simp add: get_def mkIssue_def)
  from validate_issue [OF s this]
  show "\<exists>errs. validate rt Application r3 = Inl errs
            \<and> \<lparr> path = [Key ''jobId''], code = InvalidType TNumber TUndefined \<rparr> \<in> set errs"
    by auto
next
  assume a: "r3 ''workerId'' = None"
  have s: "(''workerId'', ZInteger) \<in> set (insertSchema Application)"
    by (simp add: insertApplicationSchema_eq)
  have "parseZ rt ZInteger [Key ''workerId''] (get r3 ''workerId'')
          = Inl [\<lparr> path = [Key ''workerId''], code = InvalidType TNumber TUndefined \<rparr>]"
    using a by (simp add: get_def mkIssue_def)
  from validate_issue [OF s this]
  show "\<exists>errs. validate rt Application r3 = Inl errs
            \<and> \<lparr> path = [Key ''workerId''], code = InvalidType TNumber TUndefined \<rparr> \<in> set errs"
    by auto
qed

theorem application_required_fields_witness:
  "validate exampleRuntime Application [''workerId'' \<mapsto> JNum 1]
     = Inl [\<lparr> path = [Key ''jobId''], code = InvalidType TNumber TUndefined \<rparr>]
   \<and> validate exampleRuntime Application applicationInput
     = Inr [(''jobId'', JNum 1), (''workerId'', JNum 1)]
   \<and> (\<exists>errs. validate exampleRuntime Application Map.empty = Inl errs
        \<and> \<lparr> path = [Key ''jobId''], code = InvalidType TNumber TUndefined \<rparr> \<in> set errs)
   \<and> (\<exists>errs. validate exampleRuntime Application Map.empty = Inl errs
        \<and> \<lparr> path = [Key ''workerId''], code = InvalidType TNumber TUndefined \<rparr> \<in> set errs)"
proof -
  have i: "integerColumn exampleRuntime 1" by (simp add: exampleRuntime_def isInt32_def)
  have a: "[''workerId'' \<mapsto> JNum 1] ''jobId'' = None \<and> [''workerId'' \<mapsto> JNum 1] ''workerId'' = Some (JNum 1)
     \<and> [''workerId'' \<mapsto> JNum (1::rat)] ''note'' = None"
    by simp
  have b: "applicationInput ''jobId'' = Some (JNum 1) \<and> applicationInput ''workerId'' = Some (JNum 1)
     \<and> applicationInput ''note'' = None"
    by (simp add: applicationInput_def)
  have c: "(Map.empty :: record_in) ''jobId'' = None \<and> (Map.empty :: record_in) ''workerId'' = None" by simp
  show ?thesis
    using application_required_fields
      [of "[''workerId'' \<mapsto> JNum 1]" 1 exampleRuntime _ applicationInput 1 1 Map.empty] i a b c
    by blast
qed

section \<open>Facts about the store\<close>

lemma table_names:
  "t_name users = ''users''" "t_name jobs = ''jobs''" "t_name applications = ''applications''"
  by (simp_all add: decl_defs)

lemma map_of_buildRow:
  "map_of (map (\<lambda>(k, c). (k, f k c)) cs) k = map_option (f k) (map_of cs k)"
  by (induction cs) auto

lemma buildRow_field:
  "field (buildRow t now nv r) k =
     (case map_of (t_columns t) k of None \<Rightarrow> JNull | Some c \<Rightarrow> columnValue now nv r k c)"
  by (simp add: field_def buildRow_def map_of_buildRow split: option.splits)

lemma create_success:
  "create st e now nv r = (None, st') \<Longrightarrow>
     st' = st (t_name (tableOf e) := st (t_name (tableOf e)) @ [buildRow (tableOf e) now nv r])
     \<and> typeErrors (tableOf e) (buildRow (tableOf e) now nv r) = []
     \<and> nullErrors (tableOf e) (buildRow (tableOf e) now nv r) = []
     \<and> uniqueErrors (tableOf e) st (buildRow (tableOf e) now nv r) = []
     \<and> referenceErrors (tableOf e) st (buildRow (tableOf e) now nv r) = []"
  by (auto simp: create_def insert_row_def Let_def split: list.splits sum.splits)

lemma create_failure: "create st e now nv r = (Some err, st') \<Longrightarrow> st' = st"
  by (auto simp: create_def split: sum.splits)

lemma uniqueErrors_Nil:
  "uniqueErrors t st rw = [] \<Longrightarrow> (k, c) \<in> set (t_columns t) \<Longrightarrow> c_unique c \<or> c_primaryKey c \<Longrightarrow>
   field rw k \<noteq> JNull \<Longrightarrow> field rw k \<notin> set (map (\<lambda>old. field old k) (st (t_name t)))"
  unfolding uniqueErrors_def by (fastforce split: if_splits)

lemma nullErrors_Nil:
  "nullErrors t rw = [] \<Longrightarrow> (k, c) \<in> set (t_columns t) \<Longrightarrow> c_notNull c \<Longrightarrow> field rw k \<noteq> JNull"
  unfolding nullErrors_def by (fastforce split: if_splits)

lemma uniqueErrors_shape:
  "err \<in> set (uniqueErrors t st rw) \<Longrightarrow> \<exists>k. err = UniquenessError (t_name t) k"
  unfolding uniqueErrors_def by (auto split: if_splits)

lemma username_column:
  "(''username'', unique (notNull (pgText ''username''))) \<in> set (t_columns users)"
  by (simp add: users_def pgTable_def)

lemma create_keeps_usernames_distinct:
  assumes d: "distinct (usernames st)" and c: "create st e now nv r = (res, st')"
  shows "distinct (usernames st')"
proof (cases res)
  case (Some err)
  with c d create_failure show ?thesis by blast
next
  case None
  let ?rw = "buildRow (tableOf e) now nv r"
  from create_success [OF c [unfolded None]]
  have st': "st' = st (t_name (tableOf e) := st (t_name (tableOf e)) @ [?rw])"
    and nu: "nullErrors (tableOf e) ?rw = []"
    and un: "uniqueErrors (tableOf e) st ?rw = []"
    by auto
  show ?thesis
  proof (cases e)
    case User
    have nn: "field ?rw ''username'' \<noteq> JNull"
      using nullErrors_Nil [OF nu [unfolded User tableOf.simps] username_column]
      by (simp add: User unique_def notNull_def)
    have "field ?rw ''username'' \<notin> set (map (\<lambda>old. field old ''username'') (st (t_name users)))"
      using uniqueErrors_Nil [OF un [unfolded User tableOf.simps] username_column] nn
      by (simp add: User unique_def)
    with d show ?thesis by (simp add: st' User usernames_def table_names)
  next
    case Job
    with d show ?thesis by (simp add: st' usernames_def table_names)
  next
    case Application
    with d show ?thesis by (simp add: st' usernames_def table_names)
  qed
qed

lemma reachable_usernames_distinct: "reachable st \<Longrightarrow> distinct (usernames st)"
proof (induction rule: reachable.induct)
  case initial
  show ?case by (simp add: usernames_def emptyStore_def)
next
  case (created st e now nextval r res st')
  then show ?case using create_keeps_usernames_distinct by blast
qed

lemma duplicate_username_unique_error:
  assumes u: "r ''username'' = Some (JStr u)" and m: "JStr u \<in> set (usernames st)"
  shows "UniquenessError ''users'' ''username''
           \<in> set (uniqueErrors users st (buildRow users now nv r))"
proof -
  have f: "field (buildRow users now nv r) ''username'' = JStr u"
    using u by (simp add: buildRow_field users_def pgTable_def columnValue_def get_def)
  show ?thesis
    unfolding uniqueErrors_def using f m username_column
    by (auto simp: usernames_def unique_def table_names
        intro!: bexI [of _ "(''username'', unique (notNull (pgText ''username'')))"])
qed

lemmas store_eval_defs =
  create_def insert_row_def Let_def buildRow_def typeErrors_def nullErrors_def
  uniqueErrors_def referenceErrors_def columnValue_def get_def fits_def field_def isInt32_def
  emptyStore_def exampleStore_def

lemma create_alice:
  "create emptyStore User now 1 aliceInput = (None, emptyStore(''users'' := [aliceRow]))"
  by (simp add: store_eval_defs decl_defs aliceInput_def aliceRow_def)

lemma create_job:
  "create (emptyStore(''users'' := [aliceRow])) Job now 1 jobRecord = (None, exampleStore)"
  by (simp add: store_eval_defs decl_defs jobRecord_def jobRow_def aliceRow_def)

lemma reachable_alice: "reachable (emptyStore(''users'' := [aliceRow]))"
  using reachable.created [OF reachable.initial create_alice] .

lemma reachable_exampleStore: "reachable exampleStore"
  using reachable.created [OF reachable_alice create_job] .

lemma created_row:
  "create st e now nv r = (None, st') \<Longrightarrow>
     st' (t_name (tableOf e)) = st (t_name (tableOf e)) @ [buildRow (tableOf e) now nv r]"
  using create_success [of st e now nv r st'] by simp

lemma applicationInput_result:
  "validate exampleRuntime Application applicationInput
     = Inr [(''jobId'', JNum 1), (''workerId'', JNum 1)]"
  by (simp add: eval_defs insertApplicationSchema_eq applicationInput_def exampleRuntime_def
      isInt32_def)

lemma aliceInput_insertable:
  "typeErrors users (buildRow users 0 2 aliceInput) = []
   \<and> nullErrors users (buildRow users 0 2 aliceInput) = []"
  by (simp add: store_eval_defs decl_defs aliceInput_def)

lemmas insert_defs =
  create_def insert_row_def Let_def buildRow_def typeErrors_def nullErrors_def
  uniqueErrors_def referenceErrors_def columnValue_def fits_def field_def

lemma create_application_ok:
  assumes "get r ''id'' = JUndefined" "get r ''status'' = JUndefined"
    "get r ''createdAt'' = JUndefined"
    "get r ''jobId'' = JNum j" "isInt32 j"
    "get r ''workerId'' = JNum w" "isInt32 w"
    "get r ''note'' = JUndefined \<or> get r ''note'' = JStr s"
    "JNum j \<in> set (map (\<lambda>rw. field rw ''id'') (st ''jobs''))"
    "JNum w \<in> set (map (\<lambda>rw. field rw ''id'') (st ''users''))"
    "isInt32 (of_int nv)"
    "JNum (of_int nv) \<notin> set (map (\<lambda>rw. field rw ''id'') (st ''applications''))"
  shows "create st Application now nv r =
     (None, st(''applications'' := st ''applications'' @
        [[(''id'', JNum (of_int nv)), (''jobId'', JNum j), (''workerId'', JNum w),
          (''status'', JStr ''pending''),
          (''note'', if get r ''note'' = JUndefined then JNull else JStr s),
          (''createdAt'', JDate (Some now))]]))"
  using assms by (auto simp: insert_defs decl_defs)

lemma create_job_ok:
  assumes "get r ''id'' = JUndefined" "get r ''status'' = JUndefined"
    "get r ''title'' = JStr a1" "get r ''description'' = JStr a2" "get r ''location'' = JStr a3"
    "get r ''requirements'' = JArr vs" "\<forall>x \<in> set vs. \<exists>s. x = JStr s"
    "get r ''startDate'' = JDate (Some t1)" "get r ''endDate'' = JDate (Some t2)"
    "get r ''shiftStartTime'' = JStr a4" "get r ''shiftEndTime'' = JStr a5"
    "get r ''shiftHours'' = JNum h" "isInt32 h" "get r ''rate'' = JNum p" "isInt32 p"
    "get r ''employerId'' = JNum emp" "isInt32 emp"
    "JNum emp \<in> set (map (\<lambda>rw. field rw ''id'') (st ''users''))"
    "isInt32 (of_int nv)"
    "JNum (of_int nv) \<notin> set (map (\<lambda>rw. field rw ''id'') (st ''jobs''))"
  shows "create st Job now nv r =
     (None, st(''jobs'' := st ''jobs'' @
        [[(''id'', JNum (of_int nv)), (''title'', JStr a1), (''description'', JStr a2),
          (''location'', JStr a3), (''requirements'', JArr vs),
          (''startDate'', JDate (Some t1)), (''endDate'', JDate (Some t2)),
          (''shiftStartTime'', JStr a4), (''shiftEndTime'', JStr a5),
          (''shiftHours'', JNum h), (''rate'', JNum p), (''employerId'', JNum emp),
          (''status'', JStr ''open'')]]))"
proof -
  have arr: "list_all (\<lambda>x. x = JNull \<or> fitsType Text x) vs"
    using assms(7) by (auto simp: list_all_iff)
  show ?thesis
    using assms(1-6) assms(8-20) arr by (simp add: insert_defs decl_defs)
qed

lemma validated_get:
  assumes "validate rt e inp = Inr out" "(k, z) \<in> set (insertSchema e)"
  shows "parseZ rt z [Key k] (get inp k) = Inr (get (map_of out) k)"
  using validate_value [OF assms] by (auto simp: get_def split: if_splits)

lemma validated_get_other:
  assumes "validate rt e inp = Inr out" "k \<notin> fst ` set (insertSchema e)"
  shows "get (map_of out) k = JUndefined"
proof -
  from assms(1) have out: "out = snd (parseShape rt (insertSchema e) inp)"
    by (simp add: validate_def safeParse_Inr)
  have "map_of out k = None"
  proof (rule ccontr)
    assume "map_of out k \<noteq> None"
    then obtain v where "(k, v) \<in> set out" by (auto dest: map_of_SomeD)
    with out assms(2) parseShape_keys show False by blast
  qed
  then show ?thesis by (simp add: get_def)
qed

lemma mergeArray_all_ok:
  "(\<And>es. Inl es \<in> set rs \<Longrightarrow> es \<noteq> []) \<Longrightarrow> mergeArray rs = ([], vs) \<Longrightarrow> rs = map Inr vs"
proof (induction rs arbitrary: vs rule: mergeArray.induct)
  case 1
  then show ?case by simp
next
  case (2 es rs)
  from 2(2) [of es] have "es \<noteq> []" by simp
  with 2(3) show ?case by (auto split: prod.splits)
next
  case (3 v rs)
  then show ?case by (auto split: prod.splits)
qed

lemma parse_string: "parseZ rt ZString p x = Inr v \<Longrightarrow> \<exists>s. v = JStr s"
  by (cases x) auto

lemma parse_integer: "parseZ rt ZInteger p x = Inr v \<Longrightarrow> \<exists>q. v = JNum q \<and> integerColumn rt q"
  by (cases x) (auto split: if_splits)

lemma parse_coerce_date: "parseZ rt ZCoerceDate p x = Inr v \<Longrightarrow> \<exists>t. v = JDate (Some t)"
  by (auto split: option.splits)

lemma parse_optional_string:
  "parseZ rt (ZOptional ZString) p x = Inr v \<Longrightarrow> v = JUndefined \<or> (\<exists>s. v = JStr s)"
  by (cases x) (auto split: if_splits)

lemma parse_string_array:
  assumes "parseZ rt (ZArray ZString) p x = Inr v"
  shows "\<exists>vs. v = JArr vs \<and> (\<forall>y \<in> set vs. \<exists>s. y = JStr s)"
proof (cases x)
  case (JArr xs)
  let ?rs = "map (\<lambda>(i, y). parseZ rt ZString (p @ [Index i]) y) (zip [0 ..< length xs] xs)"
  from assms JArr obtain vs where m: "mergeArray ?rs = ([], vs)" and v: "v = JArr vs"
    by (auto simp del: parseZ.simps(1) split: prod.splits list.splits)
  have ne: "es \<noteq> []" if "Inl es \<in> set ?rs" for es
  proof -
    from that obtain i y where "Inl es = parseZ rt ZString (p @ [Index i]) y"
      by (auto simp del: parseZ.simps)
    then show ?thesis using parseZ_issue_nonempty [of rt ZString "p @ [Index i]" y es] by simp
  qed
  from mergeArray_all_ok [OF ne m] have rs: "?rs = map Inr vs" by simp
  have "\<exists>s. y = JStr s" if "y \<in> set vs" for y
  proof -
    from that have "Inr y \<in> set ?rs" unfolding rs by simp
    then obtain i x' where "parseZ rt ZString (p @ [Index i]) x' = Inr y"
      by (auto simp del: parseZ.simps)
    then show ?thesis by (rule parse_string)
  qed
  with v show ?thesis by blast
qed (use assms in auto)

lemma parse_requirements:
  assumes "parseZ rt (ZDefault (ZArray ZString) (JArr [])) p x = Inr v"
  shows "\<exists>vs. v = JArr vs \<and> (\<forall>y \<in> set vs. \<exists>s. y = JStr s)"
proof (cases "x = JUndefined")
  case True
  with assms have "v = JArr []" by simp
  then show ?thesis by simp
next
  case False
  with assms have "parseZ rt (ZArray ZString) p x = Inr v" by simp
  then show ?thesis by (rule parse_string_array)
qed

lemma parse_integer_same: "parseZ rt ZInteger p x = Inr v \<Longrightarrow> v = x"
  by (cases x) (auto split: if_splits)

lemma validated_application_stored:
  assumes ok: "validate rt Application inp = Inr out"
    and int: "\<forall>q. integerColumn rt q \<longrightarrow> isInt32 q"
    and job: "get inp ''jobId'' \<in> set (map (\<lambda>rw. field rw ''id'') (st ''jobs''))"
    and worker: "get inp ''workerId'' \<in> set (map (\<lambda>rw. field rw ''id'') (st ''users''))"
    and nv: "isInt32 (of_int nv)"
    and fresh: "JNum (of_int nv) \<notin> set (map (\<lambda>rw. field rw ''id'') (st ''applications''))"
  shows "\<exists>rw. create st Application now nv (map_of out)
               = (None, st(''applications'' := st ''applications'' @ [rw]))
           \<and> field rw ''status'' = JStr ''pending''
           \<and> field rw ''createdAt'' = JDate (Some now)"
proof -
  let ?r = "map_of out"
  have keys: "fst ` set (insertSchema Application) = {''jobId'', ''workerId'', ''note''}"
    by (simp add: insertApplicationSchema_eq)
  have id: "get ?r ''id'' = JUndefined" and status: "get ?r ''status'' = JUndefined"
    and created: "get ?r ''createdAt'' = JUndefined"
    using validated_get_other [OF ok] keys by simp_all
  have "parseZ rt ZInteger [Key ''jobId''] (get inp ''jobId'') = Inr (get ?r ''jobId'')"
    by (rule validated_get [OF ok]) (simp add: insertApplicationSchema_eq)
  from parse_integer [OF this] parse_integer_same [OF this] int
  obtain j where j: "get ?r ''jobId'' = JNum j" "isInt32 j" "get inp ''jobId'' = JNum j"
    by auto
  have "parseZ rt ZInteger [Key ''workerId''] (get inp ''workerId'') = Inr (get ?r ''workerId'')"
    by (rule validated_get [OF ok]) (simp add: insertApplicationSchema_eq)
  from parse_integer [OF this] parse_integer_same [OF this] int
  obtain w where w: "get ?r ''workerId'' = JNum w" "isInt32 w" "get inp ''workerId'' = JNum w"
    by auto
  have "parseZ rt (ZOptional ZString) [Key ''note''] (get inp ''note'') = Inr (get ?r ''note'')"
    by (rule validated_get [OF ok]) (simp add: insertApplicationSchema_eq)
  from parse_optional_string [OF this]
  obtain s where s: "get ?r ''note'' = JUndefined \<or> get ?r ''note'' = JStr s" by auto
  have j': "JNum j \<in> set (map (\<lambda>rw. field rw ''id'') (st ''jobs''))" using job j by simp
  have w': "JNum w \<in> set (map (\<lambda>rw. field rw ''id'') (st ''users''))" using worker w by simp
  let ?rw = "[(''id'', JNum (of_int nv)), (''jobId'', JNum j), (''workerId'', JNum w),
      (''status'', JStr ''pending''),
      (''note'', if get ?r ''note'' = JUndefined then JNull else JStr s),
      (''createdAt'', JDate (Some now))]"
  have "create st Application now nv ?r
          = (None, st(''applications'' := st ''applications'' @ [?rw]))"
    by (rule create_application_ok [OF id status created j(1) j(2) w(1) w(2) s j' w' nv fresh])
  moreover have "field ?rw ''status'' = JStr ''pending''" by (simp add: field_def)
  moreover have "field ?rw ''createdAt'' = JDate (Some now)" by (simp add: field_def)
  ultimately show ?thesis by blast
qed

lemma validated_job_stored:
  assumes ok: "validate rt Job inp = Inr out"
    and int: "\<forall>q. integerColumn rt q \<longrightarrow> isInt32 q"
    and emp: "isInt32 emp" "JNum emp \<in> set (map (\<lambda>rw. field rw ''id'') (st ''users''))"
    and nv: "isInt32 (of_int nv)"
    and fresh: "JNum (of_int nv) \<notin> set (map (\<lambda>rw. field rw ''id'') (st ''jobs''))"
  shows "\<exists>rw. create st Job now nv ((map_of out)(''employerId'' \<mapsto> JNum emp))
               = (None, st(''jobs'' := st ''jobs'' @ [rw]))
           \<and> field rw ''status'' = JStr ''open''"
proof -
  let ?r = "(map_of out)(''employerId'' \<mapsto> JNum emp)"
  have other: "get ?r k = get (map_of out) k" if "k \<noteq> ''employerId''" for k
    using that by (simp add: get_def)
  have "''id'' \<notin> fst ` set (insertSchema Job)" by (simp add: insertJobSchema_eq)
  from validated_get_other [OF ok this] have id: "get ?r ''id'' = JUndefined"
    by (simp add: get_def)
  have "''status'' \<notin> fst ` set (insertSchema Job)" by (simp add: insertJobSchema_eq)
  from validated_get_other [OF ok this] have status: "get ?r ''status'' = JUndefined"
    by (simp add: get_def)
  have str: "\<exists>s. get ?r k = JStr s" if "(k, ZString) \<in> set (insertSchema Job)" for k
  proof -
    from that have "k \<noteq> ''employerId''" by (auto simp: insertJobSchema_eq)
    then have "get ?r k = get (map_of out) k" by (rule other)
    with parse_string [OF validated_get [OF ok that]] show ?thesis by simp
  qed
  have num: "\<exists>q. get ?r k = JNum q \<and> isInt32 q" if "(k, ZInteger) \<in> set (insertSchema Job)" for k
  proof -
    from that have "k \<noteq> ''employerId''" by (auto simp: insertJobSchema_eq)
    then have "get ?r k = get (map_of out) k" by (rule other)
    with parse_integer [OF validated_get [OF ok that]] int show ?thesis by auto
  qed
  have dat: "\<exists>t. get ?r k = JDate (Some t)" if "(k, ZCoerceDate) \<in> set (insertSchema Job)" for k
  proof -
    from that have "k \<noteq> ''employerId''" by (auto simp: insertJobSchema_eq)
    then have "get ?r k = get (map_of out) k" by (rule other)
    with parse_coerce_date [OF validated_get [OF ok that]] show ?thesis by simp
  qed
  obtain a1 where a1: "get ?r ''title'' = JStr a1"
    using str [of "''title''"] by (auto simp: insertJobSchema_eq)
  obtain a2 where a2: "get ?r ''description'' = JStr a2"
    using str [of "''description''"] by (auto simp: insertJobSchema_eq)
  obtain a3 where a3: "get ?r ''location'' = JStr a3"
    using str [of "''location''"] by (auto simp: insertJobSchema_eq)
  obtain a4 where a4: "get ?r ''shiftStartTime'' = JStr a4"
    using str [of "''shiftStartTime''"] by (auto simp: insertJobSchema_eq)
  obtain a5 where a5: "get ?r ''shiftEndTime'' = JStr a5"
    using str [of "''shiftEndTime''"] by (auto simp: insertJobSchema_eq)
  obtain t1 where t1: "get ?r ''startDate'' = JDate (Some t1)"
    using dat [of "''startDate''"] by (auto simp: insertJobSchema_eq)
  obtain t2 where t2: "get ?r ''endDate'' = JDate (Some t2)"
    using dat [of "''endDate''"] by (auto simp: insertJobSchema_eq)
  obtain h where h: "get ?r ''shiftHours'' = JNum h" "isInt32 h"
    using num [of "''shiftHours''"] by (auto simp: insertJobSchema_eq)
  obtain p where p: "get ?r ''rate'' = JNum p" "isInt32 p"
    using num [of "''rate''"] by (auto simp: insertJobSchema_eq)
  have "parseZ rt (ZDefault (ZArray ZString) (JArr [])) [Key ''requirements'']
          (get inp ''requirements'') = Inr (get (map_of out) ''requirements'')"
    by (rule validated_get [OF ok]) (simp add: insertJobSchema_eq)
  from parse_requirements [OF this]
  obtain vs where vs: "get ?r ''requirements'' = JArr vs" "\<forall>x \<in> set vs. \<exists>s. x = JStr s"
    by (auto simp: other)
  have e: "get ?r ''employerId'' = JNum emp" by (simp add: get_def)
  let ?rw = "[(''id'', JNum (of_int nv)), (''title'', JStr a1), (''description'', JStr a2),
      (''location'', JStr a3), (''requirements'', JArr vs),
      (''startDate'', JDate (Some t1)), (''endDate'', JDate (Some t2)),
      (''shiftStartTime'', JStr a4), (''shiftEndTime'', JStr a5),
      (''shiftHours'', JNum h), (''rate'', JNum p), (''employerId'', JNum emp),
      (''status'', JStr ''open'')]"
  have "create st Job now nv ?r = (None, st(''jobs'' := st ''jobs'' @ [?rw]))"
    by (rule create_job_ok [OF id status a1 a2 a3 vs t1 t2 a4 a5 h p e emp nv fresh])
  moreover have "field ?rw ''status'' = JStr ''open''" by (simp add: field_def)
  ultimately show ?thesis by blast
qed

lemma validated_job_needs_employer:
  assumes ok: "validate rt Job inp = Inr out"
  shows "\<exists>err. create st Job now nv (map_of out) = (Some err, st)"
proof -
  have "''employerId'' \<notin> fst ` set (insertSchema Job)" by (simp add: insertJobSchema_eq)
  from validated_get_other [OF ok this]
  have "field (buildRow jobs now nv (map_of out)) ''employerId'' = JNull"
    by (simp add: buildRow_field decl_defs columnValue_def)
  then have "NotNullViolation ''jobs'' ''employerId''
      \<in> set (nullErrors jobs (buildRow jobs now nv (map_of out)))"
    unfolding nullErrors_def
    by (auto simp: decl_defs
        intro!: bexI [of _ "(''employerId'', references ''users'' ''id'' (notNull (pgInteger ''employer_id'')))"])
  then have "nullErrors jobs (buildRow jobs now nv (map_of out)) \<noteq> []" by auto
  then show ?thesis
    by (auto simp: create_def insert_row_def Let_def split: list.splits)
qed

subsection \<open>Properties of the store\<close>

text \<open>
  C8. A record that the Creation Validator of an Application returns is stored, when its
  job and its worker are stored and the sequence gives a fresh id, in a row whose
  \<^verbatim>\<open>status\<close> is \<^verbatim>\<open>pending\<close> and whose \<^verbatim>\<open>createdAt\<close> is the time of the insertion. A
  record that the Creation Validator of a Job returns has no \<^verbatim>\<open>employerId\<close> and is refused
  as it is (\<open>validated_job_needs_employer\<close>); completed with the \<^verbatim>\<open>employerId\<close> of a stored
  user it is stored, given a fresh id, in a row whose \<^verbatim>\<open>status\<close> is \<^verbatim>\<open>open\<close>. Both
  suppose that the numbers the validator accepts for integer columns are 32-bit integers.
  Besides, every Application record without \<^verbatim>\<open>status\<close> and \<^verbatim>\<open>createdAt\<close> and every Job
  record without \<^verbatim>\<open>status\<close> that is stored has these values in its row.
\<close>

theorem stored_defaults:
  "(validate rt Application inp = Inr out \<and> (\<forall>q. integerColumn rt q \<longrightarrow> isInt32 q)
      \<and> get inp ''jobId'' \<in> set (map (\<lambda>rw. field rw ''id'') (st ''jobs''))
      \<and> get inp ''workerId'' \<in> set (map (\<lambda>rw. field rw ''id'') (st ''users''))
      \<and> isInt32 (of_int nv)
      \<and> JNum (of_int nv) \<notin> set (map (\<lambda>rw. field rw ''id'') (st ''applications''))
     \<longrightarrow> (\<exists>rw. create st Application now nv (map_of out)
                  = (None, st(''applications'' := st ''applications'' @ [rw]))
            \<and> field rw ''status'' = JStr ''pending''
            \<and> field rw ''createdAt'' = JDate (Some now)))
   \<and> (validate rt Job inp2 = Inr out2 \<and> (\<forall>q. integerColumn rt q \<longrightarrow> isInt32 q)
      \<and> isInt32 emp \<and> JNum emp \<in> set (map (\<lambda>rw. field rw ''id'') (st2 ''users''))
      \<and> isInt32 (of_int nv2)
      \<and> JNum (of_int nv2) \<notin> set (map (\<lambda>rw. field rw ''id'') (st2 ''jobs''))
     \<longrightarrow> (\<exists>rw. create st2 Job now2 nv2 ((map_of out2)(''employerId'' \<mapsto> JNum emp))
                  = (None, st2(''jobs'' := st2 ''jobs'' @ [rw]))
            \<and> field rw ''status'' = JStr ''open''))
   \<and> (r3 ''status'' = None \<and> r3 ''createdAt'' = None
      \<and> create st3 Application now3 nv3 r3 = (None, st3')
     \<longrightarrow> (\<exists>rw. st3' ''applications'' = st3 ''applications'' @ [rw]
            \<and> field rw ''status'' = JStr ''pending''
            \<and> field rw ''createdAt'' = JDate (Some now3)))
   \<and> (r4 ''status'' = None \<and> create st4 Job now4 nv4 r4 = (None, st4')
     \<longrightarrow> (\<exists>rw. st4' ''jobs'' = st4 ''jobs'' @ [rw] \<and> field rw ''status'' = JStr ''open''))"
proof (intro conjI impI)
  assume "validate rt Application inp = Inr out \<and> (\<forall>q. integerColumn rt q \<longrightarrow> isInt32 q)
      \<and> get inp ''jobId'' \<in> set (map (\<lambda>rw. field rw ''id'') (st ''jobs''))
      \<and> get inp ''workerId'' \<in> set (map (\<lambda>rw. field rw ''id'') (st ''users''))
      \<and> isInt32 (of_int nv)
      \<and> JNum (of_int nv) \<notin> set (map (\<lambda>rw. field rw ''id'') (st ''applications''))"
  then show "\<exists>rw. create st Application now nv (map_of out)
                  = (None, st(''applications'' := st ''applications'' @ [rw]))
            \<and> field rw ''status'' = JStr ''pending''
            \<and> field rw ''createdAt'' = JDate (Some now)"
    using validated_application_stored by blast
next
  assume "validate rt Job inp2 = Inr out2 \<and> (\<forall>q. integerColumn rt q \<longrightarrow> isInt32 q)
      \<and> isInt32 emp \<and> JNum emp \<in> set (map (\<lambda>rw. field rw ''id'') (st2 ''users''))
      \<and> isInt32 (of_int nv2)
      \<and> JNum (of_int nv2) \<notin> set (map (\<lambda>rw. field rw ''id'') (st2 ''jobs''))"
  then show "\<exists>rw. create st2 Job now2 nv2 ((map_of out2)(''employerId'' \<mapsto> JNum emp))
                  = (None, st2(''jobs'' := st2 ''jobs'' @ [rw]))
            \<and> field rw ''status'' = JStr ''open''"
    using validated_job_stored by blast
next
  assume a: "r3 ''status'' = None \<and> r3 ''createdAt'' = None
      \<and> create st3 Application now3 nv3 r3 = (None, st3')"
  then have "st3' ''applications'' = st3 ''applications'' @ [buildRow applications now3 nv3 r3]"
    using created_row [of st3 Application now3 nv3 r3 st3'] by (simp add: table_names)
  moreover have "field (buildRow applications now3 nv3 r3) ''status'' = JStr ''pending''"
    using a by (simp add: buildRow_field decl_defs columnValue_def get_def)
  moreover have "field (buildRow applications now3 nv3 r3) ''createdAt'' = JDate (Some now3)"
    using a by (simp add: buildRow_field decl_defs columnValue_def get_def)
  ultimately show "\<exists>rw. st3' ''applications'' = st3 ''applications'' @ [rw]
            \<and> field rw ''status'' = JStr ''pending''
            \<and> field rw ''createdAt'' = JDate (Some now3)" by blast
next
  assume a: "r4 ''status'' = None \<and> create st4 Job now4 nv4 r4 = (None, st4')"
  then have "st4' ''jobs'' = st4 ''jobs'' @ [buildRow jobs now4 nv4 r4]"
    using created_row [of st4 Job now4 nv4 r4 st4'] by (simp add: table_names)
  moreover have "field (buildRow jobs now4 nv4 r4) ''status'' = JStr ''open''"
    using a by (simp add: buildRow_field decl_defs columnValue_def get_def)
  ultimately show "\<exists>rw. st4' ''jobs'' = st4 ''jobs'' @ [rw] \<and> field rw ''status'' = JStr ''open''"
    by blast
qed

theorem stored_defaults_witness:
  "(\<exists>rw. create exampleStore Application 1704000000000 1
            (map_of [(''jobId'', JNum 1), (''workerId'', JNum 1)])
          = (None, exampleStore(''applications'' := exampleStore ''applications'' @ [rw]))
        \<and> field rw ''status'' = JStr ''pending''
        \<and> field rw ''createdAt'' = JDate (Some 1704000000000))
   \<and> (\<exists>rw. create (emptyStore(''users'' := [aliceRow])) Job 0 1
            ((map_of [(''title'', JStr ''Warehouse shift''), (''description'', JStr ''...''),
                (''location'', JStr ''Austin''), (''requirements'', JArr []),
                (''startDate'', JDate (Some 1704067200000)),
                (''endDate'', JDate (Some 1704153600000)),
                (''shiftStartTime'', JStr ''08:00''), (''shiftEndTime'', JStr ''16:00''),
                (''shiftHours'', JNum 8), (''rate'', JNum 20)])(''employerId'' \<mapsto> JNum 1))
          = (None, (emptyStore(''users'' := [aliceRow]))
                     (''jobs'' := (emptyStore(''users'' := [aliceRow])) ''jobs'' @ [rw]))
        \<and> field rw ''status'' = JStr ''open'')"
proof -
  have int: "\<forall>q. integerColumn exampleRuntime q \<longrightarrow> isInt32 q"
    by (simp add: exampleRuntime_def)
  have refs: "get applicationInput ''jobId'' \<in> set (map (\<lambda>rw. field rw ''id'') (exampleStore ''jobs''))
      \<and> get applicationInput ''workerId'' \<in> set (map (\<lambda>rw. field rw ''id'') (exampleStore ''users''))"
    by (simp add: get_def applicationInput_def exampleStore_def jobRow_def aliceRow_def field_def)
  have one: "isInt32 1 \<and> isInt32 (of_int 1)" by (simp add: isInt32_def)
  have fresh: "JNum (of_int 1) \<notin> set (map (\<lambda>rw. field rw ''id'') (exampleStore ''applications''))
      \<and> JNum (of_int 1) \<notin> set (map (\<lambda>rw. field rw ''id'') ((emptyStore(''users'' := [aliceRow])) ''jobs''))"
    by (simp add: exampleStore_def emptyStore_def)
  have emp: "JNum 1 \<in> set (map (\<lambda>rw. field rw ''id'') ((emptyStore(''users'' := [aliceRow])) ''users''))"
    by (simp add: aliceRow_def field_def)
  show ?thesis
    using stored_defaults
      [of exampleRuntime applicationInput "[(''jobId'', JNum 1), (''workerId'', JNum 1)]"
          exampleStore 1 1704000000000 jobInput
          "[(''title'', JStr ''Warehouse shift''), (''description'', JStr ''...''),
                (''location'', JStr ''Austin''), (''requirements'', JArr []),
                (''startDate'', JDate (Some 1704067200000)),
                (''endDate'', JDate (Some 1704153600000)),
                (''shiftStartTime'', JStr ''08:00''), (''shiftEndTime'', JStr ''16:00''),
                (''shiftHours'', JNum 8), (''rate'', JNum 20)]"
          1 "emptyStore(''users'' := [aliceRow])" 1 0]
      applicationInput_result jobInput_result int refs one fresh emp
    by blast
qed

text \<open>
  C9. In every store that insertions reach from the empty store no two users have the
  same \<^verbatim>\<open>username\<close>, and every insertion, of any entity kind, keeps it so. Inserting a
  User record whose \<^verbatim>\<open>username\<close> is that of a stored user fails and leaves the store as
  it was; when the record is otherwise insertable (its values are of the columns' types
  and no \<^verbatim>\<open>notNull\<close> column is NULL), the error is a UniquenessError of the users table.
\<close>

theorem username_unique:
  "(reachable st \<longrightarrow> distinct (usernames st))
   \<and> (distinct (usernames st1) \<and> create st1 e now nv r = (res, st1')
        \<longrightarrow> distinct (usernames st1'))
   \<and> (r2 ''username'' = Some (JStr u) \<and> JStr u \<in> set (usernames st2)
        \<longrightarrow> (\<exists>err. create st2 User now2 nv2 r2 = (Some err, st2)))
   \<and> (r2 ''username'' = Some (JStr u) \<and> JStr u \<in> set (usernames st2)
        \<and> typeErrors users (buildRow users now2 nv2 r2) = []
        \<and> nullErrors users (buildRow users now2 nv2 r2) = []
        \<longrightarrow> (\<exists>k. create st2 User now2 nv2 r2 = (Some (UniquenessError ''users'' k), st2)))"
proof (intro conjI impI)
  assume "reachable st" then show "distinct (usernames st)" by (rule reachable_usernames_distinct)
next
  assume "distinct (usernames st1) \<and> create st1 e now nv r = (res, st1')"
  then show "distinct (usernames st1')" using create_keeps_usernames_distinct by blast
next
  assume a: "r2 ''username'' = Some (JStr u) \<and> JStr u \<in> set (usernames st2)"
  then have "UniquenessError ''users'' ''username''
      \<in> set (uniqueErrors users st2 (buildRow users now2 nv2 r2))"
    using duplicate_username_unique_error by blast
  then have "uniqueErrors users st2 (buildRow users now2 nv2 r2) \<noteq> []" by auto
  then show "\<exists>err. create st2 User now2 nv2 r2 = (Some err, st2)"
    by (auto simp: create_def insert_row_def Let_def split: list.splits)
next
  assume a: "r2 ''username'' = Some (JStr u) \<and> JStr u \<in> set (usernames st2)
        \<and> typeErrors users (buildRow users now2 nv2 r2) = []
        \<and> nullErrors users (buildRow users now2 nv2 r2) = []"
  then have "UniquenessError ''users'' ''username''
      \<in> set (uniqueErrors users st2 (buildRow users now2 nv2 r2))"
    using duplicate_username_unique_error by blast
  then obtain x xs where x: "uniqueErrors users st2 (buildRow users now2 nv2 r2) = x # xs"
    by (cases "uniqueErrors users st2 (buildRow users now2 nv2 r2)") auto
  then have "x \<in> set (uniqueErrors users st2 (buildRow users now2 nv2 r2))" by simp
  then obtain k where "x = UniquenessError ''users'' k"
    using uniqueErrors_shape [of x users] by (auto simp: table_names)
  with a x show "\<exists>k. create st2 User now2 nv2 r2 = (Some (UniquenessError ''users'' k), st2)"
    by (auto simp: create_def insert_row_def Let_def)
qed

theorem username_unique_witness:
  "distinct (usernames exampleStore)
   \<and> distinct (usernames (emptyStore(''users'' := [aliceRow])))
   \<and> (\<exists>err. create exampleStore User 0 2 aliceInput = (Some err, exampleStore))
   \<and> (\<exists>k. create exampleStore User 0 2 aliceInput
              = (Some (UniquenessError ''users'' k), exampleStore))"
proof -
  have u: "aliceInput ''username'' = Some (JStr ''alice'')" by (simp add: aliceInput_def)
  have m: "JStr ''alice'' \<in> set (usernames exampleStore)"
    by (simp add: usernames_def exampleStore_def aliceRow_def field_def)
  have d0: "distinct (usernames emptyStore)" by (simp add: usernames_def emptyStore_def)
  show ?thesis
    using username_unique
      [of exampleStore emptyStore User 0 1 aliceInput None "emptyStore(''users'' := [aliceRow])"
          aliceInput "''alice''" exampleStore 0 2]
      reachable_exampleStore create_alice [of 0] u m d0 aliceInput_insertable
    by blast
qed

text \<open>
  C10. In the table declarations the column \<^verbatim>\<open>verified\<close> of users may be NULL and has
  the default \<^verbatim>\<open>false\<close>; \<^verbatim>\<open>skills\<close> of users and \<^verbatim>\<open>requirements\<close> of jobs are array
  columns that may be NULL and have no default. A stored user row holds \<^verbatim>\<open>false\<close> under
  \<^verbatim>\<open>verified\<close> when the record leaves the key out and the record's value otherwise, NULL
  included; it holds NULL under \<^verbatim>\<open>skills\<close> when the record leaves it out, and so does a
  job row under \<^verbatim>\<open>requirements\<close>. The user of the User scenario with \<^verbatim>\<open>verified\<close> set to
  NULL is stored with NULL. The empty-array default is in the insert schemas only.
\<close>

theorem nullable_columns:
  "(\<exists>c. map_of (t_columns users) ''verified'' = Some c \<and> c_notNull c = False
        \<and> c_default c = DefaultValue (JBool False))
   \<and> (\<exists>c. map_of (t_columns users) ''skills'' = Some c \<and> c_notNull c = False
        \<and> c_default c = NoDefault \<and> c_array c)
   \<and> (\<exists>c. map_of (t_columns jobs) ''requirements'' = Some c \<and> c_notNull c = False
        \<and> c_default c = NoDefault \<and> c_array c)
   \<and> (create st1 User now1 nv1 r1 = (None, st1')
      \<longrightarrow> (\<exists>rw. st1' ''users'' = st1 ''users'' @ [rw]
            \<and> field rw ''verified''
                = (if get r1 ''verified'' = JUndefined then JBool False else get r1 ''verified'')
            \<and> field rw ''skills''
                = (if get r1 ''skills'' = JUndefined then JNull else get r1 ''skills'')))
   \<and> (create st2 Job now2 nv2 r2 = (None, st2')
      \<longrightarrow> (\<exists>rw. st2' ''jobs'' = st2 ''jobs'' @ [rw]
            \<and> field rw ''requirements''
                = (if get r2 ''requirements'' = JUndefined then JNull
                   else get r2 ''requirements'')))
   \<and> (\<exists>st'. create emptyStore User 0 1 (aliceInput(''verified'' \<mapsto> JNull)) = (None, st')
        \<and> map (\<lambda>rw. field rw ''verified'') (st' ''users'') = [JNull]
        \<and> map (\<lambda>rw. field rw ''skills'') (st' ''users'') = [JNull])
   \<and> map_of insertUserSchema ''skills'' = Some (ZDefault (ZOptional (ZArray ZString)) (JArr []))
   \<and> map_of insertJobSchema ''requirements'' = Some (ZDefault (ZArray ZString) (JArr []))"
proof (intro conjI impI)
  show "\<exists>c. map_of (t_columns users) ''verified'' = Some c \<and> c_notNull c = False
        \<and> c_default c = DefaultValue (JBool False)"
    by (simp add: decl_defs)
  show "\<exists>c. map_of (t_columns users) ''skills'' = Some c \<and> c_notNull c = False
        \<and> c_default c = NoDefault \<and> c_array c"
    by (simp add: decl_defs)
  show "\<exists>c. map_of (t_columns jobs) ''requirements'' = Some c \<and> c_notNull c = False
        \<and> c_default c = NoDefault \<and> c_array c"
    by (simp add: decl_defs)
  show "map_of insertUserSchema ''skills'' = Some (ZDefault (ZOptional (ZArray ZString)) (JArr []))"
    by (simp add: insertUserSchema_eq)
  show "map_of insertJobSchema ''requirements'' = Some (ZDefault (ZArray ZString) (JArr []))"
    by (simp add: insertJobSchema_eq)
  show "\<exists>st'. create emptyStore User 0 1 (aliceInput(''verified'' \<mapsto> JNull)) = (None, st')
        \<and> map (\<lambda>rw. field rw ''verified'') (st' ''users'') = [JNull]
        \<and> map (\<lambda>rw. field rw ''skills'') (st' ''users'') = [JNull]"
    by (simp add: store_eval_defs decl_defs aliceInput_def)
next
  assume a: "create st1 User now1 nv1 r1 = (None, st1')"
  then have "st1' ''users'' = st1 ''users'' @ [buildRow users now1 nv1 r1]"
    using created_row [of st1 User now1 nv1 r1 st1'] by (simp add: table_names)
  moreover have "field (buildRow users now1 nv1 r1) ''verified''
      = (if get r1 ''verified'' = JUndefined then JBool False else get r1 ''verified'')"
    by (simp add: buildRow_field decl_defs columnValue_def)
  moreover have "field (buildRow users now1 nv1 r1) ''skills''
      = (if get r1 ''skills'' = JUndefined then JNull else get r1 ''skills'')"
    by (simp add: buildRow_field decl_defs columnValue_def)
  ultimately show "\<exists>rw. st1' ''users'' = st1 ''users'' @ [rw]
            \<and> field rw ''verified''
                = (if get r1 ''verified'' = JUndefined then JBool False else get r1 ''verified'')
            \<and> field rw ''skills''
                = (if get r1 ''skills'' = JUndefined then JNull else get r1 ''skills'')"
    by blast
next
  assume a: "create st2 Job now2 nv2 r2 = (None, st2')"
  then have "st2' ''jobs'' = st2 ''jobs'' @ [buildRow jobs now2 nv2 r2]"
    using created_row [of st2 Job now2 nv2 r2 st2'] by (simp add: table_names)
  moreover have "field (buildRow jobs now2 nv2 r2) ''requirements''
      = (if get r2 ''requirements'' = JUndefined then JNull else get r2 ''requirements'')"
    by (simp add: buildRow_field decl_defs columnValue_def)
  ultimately show "\<exists>rw. st2' ''jobs'' = st2 ''jobs'' @ [rw]
            \<and> field rw ''requirements''
                = (if get r2 ''requirements'' = JUndefined then JNull
                   else get r2 ''requirements'')"
    by blast
qed

theorem nullable_columns_witness:
  "(\<exists>rw. (emptyStore(''users'' := [aliceRow])) ''users'' = emptyStore ''users'' @ [rw]
        \<and> field rw ''verified''
            = (if get aliceInput ''verified'' = JUndefined then JBool False
               else get aliceInput ''verified'')
        \<and> field rw ''skills''
            = (if get aliceInput ''skills'' = JUndefined then JNull else get aliceInput ''skills''))
   \<and> (\<exists>rw. exampleStore ''jobs'' = (emptyStore(''users'' := [aliceRow])) ''jobs'' @ [rw]
        \<and> field rw ''requirements''
            = (if get jobRecord ''requirements'' = JUndefined then JNull
               else get jobRecord ''requirements''))"
  using nullable_columns
      [of emptyStore 0 1 aliceInput "emptyStore(''users'' := [aliceRow])"
          "emptyStore(''users'' := [aliceRow])" 0 1 jobRecord exampleStore]
    create_alice [of 0] create_job [of 0]
  by blast

end
